theory Spec2Isabelle
  imports Main "HOL-Library.Sublist"
begin

section \<open>The write tool of the tool execution substrate\<close>

text \<open>
  A shallow embedding of \<^verbatim>\<open>internal/llm/tools/write.go\<close> (the write tool's
  \<^verbatim>\<open>Run\<close>) and of the path and line-ending helpers of
  \<^verbatim>\<open>internal/fsext/fileutil.go\<close>.

  Go strings are byte strings: \<open>string\<close> (a \<open>char list\<close>). A Go result
  \<^verbatim>\<open>(T, error)\<close> whose value the code reads only when the error is \<^verbatim>\<open>nil\<close> is a sum
  \<open>error + T\<close> (\<open>Inl\<close> the error); where the code goes on with the value after an
  error, it is a pair of the value and an \<open>error option\<close> (\<open>None\<close> is \<^verbatim>\<open>nil\<close>).
\<close>

subsection \<open>Functions of Go's \<^verbatim>\<open>strings\<close> package used by the code\<close>

definition HasPrefix_strings :: "string \<Rightarrow> string \<Rightarrow> bool" where
  \<comment> \<open>\<^verbatim>\<open>strings.HasPrefix(s, prefix)\<close>\<close>
  "HasPrefix_strings s p = prefix p s"

definition TrimPrefix :: "string \<Rightarrow> string \<Rightarrow> string" where
  \<comment> \<open>\<^verbatim>\<open>strings.TrimPrefix(s, prefix)\<close>\<close>
  "TrimPrefix s p = (if HasPrefix_strings s p then drop (length p) s else s)"

fun Contains :: "string \<Rightarrow> string \<Rightarrow> bool" where
  \<comment> \<open>\<^verbatim>\<open>strings.Contains(s, substr)\<close>: \<open>substr\<close> starts at some position of \<open>s\<close>\<close>
  "Contains [] sub = (sub = [])"
| "Contains (c # cs) sub = (prefix sub (c # cs) \<or> Contains cs sub)"

function ReplaceAll :: "string \<Rightarrow> string \<Rightarrow> string \<Rightarrow> string" where
  \<comment> \<open>\<^verbatim>\<open>strings.ReplaceAll(s, old, new)\<close>: the non-overlapping occurrences of \<open>old\<close>,
      from the left, are replaced by \<open>new\<close>. The code calls it with the patterns CR LF and LF
      only; Go's insertion between runes for an empty \<open>old\<close> is outside this model, which
      returns \<open>s\<close> there.\<close>
  "ReplaceAll s old new =
     (if old = [] \<or> s = [] then s
      else if prefix old s then new @ ReplaceAll (drop (length old) s) old new
      else hd s # ReplaceAll (tl s) old new)"
  by pat_completeness auto
termination
  by (relation "measure (\<lambda>(s, old, new). length s)") auto

declare ReplaceAll.simps [simp del]

subsection \<open>Line endings (\<^verbatim>\<open>fsext/fileutil.go\<close>, lines 233 to 247)\<close>

abbreviation CR :: char where "CR \<equiv> CHR 0x0D"
abbreviation LF :: char where "LF \<equiv> CHR 0x0A"

definition ToUnixLineEndings :: "string \<Rightarrow> string \<times> bool" where
  "ToUnixLineEndings content =
     (if Contains content [CR, LF] then (ReplaceAll content [CR, LF] [LF], True)
      else (content, False))"

definition ToWindowsLineEndings :: "string \<Rightarrow> string \<times> bool" where
  "ToWindowsLineEndings content =
     (if \<not> Contains content [CR, LF] then (ReplaceAll content [LF] [CR, LF], True)
      else (content, False))"

subsection \<open>Paths under a prefix (\<^verbatim>\<open>fsext/fileutil.go\<close>, lines 213 to 231)\<close>

datatype error =
    ErrorPermissionDenied  \<comment> \<open>\<^verbatim>\<open>permission.ErrorPermissionDenied\<close>\<close>
  | ErrNotExist  \<comment> \<open>the error for which \<^verbatim>\<open>os.IsNotExist\<close> holds\<close>
  | ErrText string  \<comment> \<open>\<^verbatim>\<open>errors.New(text)\<close>, \<^verbatim>\<open>fmt.Errorf(text)\<close>, any other error of a library\<close>
  | Errorf string error  \<comment> \<open>\<^verbatim>\<open>fmt.Errorf("text: %w", err)\<close>\<close>

definition IsNotExist :: "error \<Rightarrow> bool" where
  "IsNotExist e = (e = ErrNotExist)"

text \<open>
  \<^verbatim>\<open>filepath.Rel(basepath, targpath)\<close> belongs to Go's library; \<open>HasPrefix\<close> and
  \<open>PathOrPrefix\<close> take it as the parameter \<open>rel\<close>.
\<close>

definition HasPrefix :: "(string \<Rightarrow> string \<Rightarrow> error + string) \<Rightarrow> string \<Rightarrow> string \<Rightarrow> bool" where
  "HasPrefix rel path pre =
     (case rel pre path of
        Inl err \<Rightarrow> False
      | Inr r \<Rightarrow> \<not> HasPrefix_strings r ''..'')"

definition PathOrPrefix :: "(string \<Rightarrow> string \<Rightarrow> error + string) \<Rightarrow> string \<Rightarrow> string \<Rightarrow> string" where
  "PathOrPrefix rel path pre = (if HasPrefix rel path pre then pre else path)"

subsection \<open>Data of the write tool (\<^verbatim>\<open>tools/write.go\<close>, lines 21 to 43)\<close>

type_synonym time = nat  \<comment> \<open>a \<^verbatim>\<open>time.Time\<close> instant; \<open>0\<close> is the zero \<^verbatim>\<open>time.Time{}\<close>\<close>

record WriteParams =
  FilePath :: string
  Content :: string

record WritePermissionsParams =
  FilePath :: string
  OldContent :: string
  NewContent :: string

record WriteResponseMetadata =
  Diff :: string
  Additions :: int
  Removals :: int

record writeTool =
  workingDir :: string
  \<comment> \<open>the fields \<^verbatim>\<open>lspClients\<close>, \<^verbatim>\<open>permissions\<close> and \<^verbatim>\<open>files\<close> refer to mutable
      collaborators: their state is in the \<open>world\<close> below, their methods in \<open>env\<close>\<close>

record FileInfo =
  IsDir :: bool
  ModTime :: time

subsection \<open>Declarations of the repository that are not among the sources\<close>

text \<open>
  Modelled from the spec: \<^verbatim>\<open>ToolCall\<close>, \<^verbatim>\<open>ToolResponse\<close> and its three constructors
  (section 3 and section 6: \<open>{content, isError, metadata?}\<close>, the metadata of the write tool
  being \<open>{diff, additions, removals}\<close>). The metadata is kept as the structure that the
  code passes to \<^verbatim>\<open>WithResponseMetadata\<close>, not as its JSON text.
\<close>

record ToolCall =
  ID :: string
  Name :: string
  Input :: string

record ToolResponse =
  Type :: string
  Content :: string
  Metadata :: "WriteResponseMetadata option"
  IsError :: bool

definition zeroToolResponse :: ToolResponse where
  \<comment> \<open>\<^verbatim>\<open>ToolResponse{}\<close>\<close>
  "zeroToolResponse = \<lparr>Type = [], Content = [], Metadata = None, IsError = False\<rparr>"

definition NewTextResponse :: "string \<Rightarrow> ToolResponse" where
  "NewTextResponse c = \<lparr>Type = ''text'', Content = c, Metadata = None, IsError = False\<rparr>"

definition NewTextErrorResponse :: "string \<Rightarrow> ToolResponse" where
  "NewTextErrorResponse c = \<lparr>Type = ''text'', Content = c, Metadata = None, IsError = True\<rparr>"

definition WithResponseMetadata :: "ToolResponse \<Rightarrow> WriteResponseMetadata \<Rightarrow> ToolResponse" where
  "WithResponseMetadata response m = response\<lparr>Metadata := Some m\<rparr>"

text \<open>
  Modelled from the spec: the ambient call context (section 4.G, step 5: the session and
  message identifiers are retrieved from the context, either may be missing).
\<close>

record Context =
  SessionIDContextKey :: "string option"
  MessageIDContextKey :: "string option"

definition GetContextValues :: "Context \<Rightarrow> string \<times> string" where
  "GetContextValues ctx =
     (case SessionIDContextKey ctx of
        None \<Rightarrow> ([], [])
      | Some sessionID \<Rightarrow>
          (case MessageIDContextKey ctx of
             None \<Rightarrow> (sessionID, [])
           | Some messageID \<Rightarrow> (sessionID, messageID)))"

text \<open>
  Modelled from the spec: the permission request (section 3:
  \<open>{sessionID, toolCallID, toolName, action, path, description, params}\<close>), with the
  field names that \<^verbatim>\<open>write.go\<close> lines 177 to 189 use.
\<close>

record CreatePermissionRequest =
  SessionID :: string
  Path :: string
  ToolCallID :: string
  ToolName :: string
  Action :: string
  Description :: string
  Params :: WritePermissionsParams

text \<open>
  Modelled from the spec: a version of the history store (section 3, HistoryVersion
  \<open>{sessionID, path, content, createdAt, version}\<close>); \<^verbatim>\<open>write.go\<close> reads its
  \<^verbatim>\<open>Content\<close> only.
\<close>

record File =
  SessionID :: string
  Path :: string
  Content :: string
  Version :: int

definition zeroFile :: File where
  \<comment> \<open>\<^verbatim>\<open>history.File{}\<close>\<close>
  "zeroFile = \<lparr>File.SessionID = [], File.Path = [], File.Content = [], Version = 0\<rparr>"

text \<open>
  Modelled from the spec: the file state tracker (section 4.A and FileStateEntry of
  section 3): per path the last read and the last write time, the zero time for a path
  never recorded, and a recording never moves a time backward.
\<close>

record fileRecord =
  readTime :: time
  writeTime :: time

type_synonym fileRecords = "string \<rightharpoonup> fileRecord"

definition getLastReadTime :: "fileRecords \<Rightarrow> string \<Rightarrow> time" where
  "getLastReadTime m path = (case m path of None \<Rightarrow> 0 | Some r \<Rightarrow> readTime r)"

definition recordFileRead :: "time \<Rightarrow> string \<Rightarrow> fileRecords \<Rightarrow> fileRecords" where
  "recordFileRead now path m =
     (case m path of
        None \<Rightarrow> m(path \<mapsto> \<lparr>readTime = now, writeTime = 0\<rparr>)
      | Some r \<Rightarrow> m(path \<mapsto> r\<lparr>readTime := max (readTime r) now\<rparr>))"

definition recordFileWrite :: "time \<Rightarrow> string \<Rightarrow> fileRecords \<Rightarrow> fileRecords" where
  "recordFileWrite now path m =
     (case m path of
        None \<Rightarrow> m(path \<mapsto> \<lparr>readTime = 0, writeTime = now\<rparr>)
      | Some r \<Rightarrow> m(path \<mapsto> r\<lparr>writeTime := max (writeTime r) now\<rparr>))"

subsection \<open>The collaborators of \<^verbatim>\<open>Run\<close> and the state it acts on\<close>

text \<open>
  \<^verbatim>\<open>Run\<close> calls Go's library (\<^verbatim>\<open>encoding/json\<close>, \<^verbatim>\<open>path/filepath\<close>, \<^verbatim>\<open>os\<close>,
  \<^verbatim>\<open>time\<close>) and the interfaces \<^verbatim>\<open>permission.Service\<close>, \<^verbatim>\<open>history.Service\<close>, the diff
  engine and the LSP clients. They are the fields of \<open>env\<close>, over the states
  \<open>'f\<close> (file system), \<open>'h\<close> (history store), \<open>'p\<close> (permission broker) and \<open>'l\<close> (LSP
  clients); every theorem about \<open>Run\<close> holds for all of them. An operation that can fail
  after a partial effect (\<^verbatim>\<open>os.MkdirAll\<close>, \<^verbatim>\<open>os.WriteFile\<close>, the store's writes) returns
  its error together with the state it left.
\<close>

record ('f, 'h, 'p, 'l) env =
  Unmarshal :: "string \<Rightarrow> string + WriteParams"
    \<comment> \<open>\<^verbatim>\<open>json.Unmarshal\<close> into \<^verbatim>\<open>WriteParams\<close>; the error is given by its text\<close>
  IsAbs :: "string \<Rightarrow> bool"
  Join :: "string \<Rightarrow> string \<Rightarrow> string"
  Dir :: "string \<Rightarrow> string"
  Rel :: "string \<Rightarrow> string \<Rightarrow> error + string"
  FormatRFC3339 :: "time \<Rightarrow> string"
  Stat :: "'f \<Rightarrow> string \<Rightarrow> error + FileInfo"
    \<comment> \<open>\<^verbatim>\<open>os.Stat\<close>: the \<^verbatim>\<open>FileInfo\<close> is \<^verbatim>\<open>nil\<close> exactly when the error is set\<close>
  ReadFile :: "'f \<Rightarrow> string \<Rightarrow> error + string"
  MkdirAll :: "'f \<Rightarrow> string \<Rightarrow> error option \<times> 'f"
  WriteFile :: "'f \<Rightarrow> string \<Rightarrow> string \<Rightarrow> error option \<times> 'f"
  GenerateDiff :: "string \<Rightarrow> string \<Rightarrow> string \<Rightarrow> string \<times> int \<times> int"
  Request :: "'p \<Rightarrow> CreatePermissionRequest \<Rightarrow> bool \<times> 'p"
  GetByPathAndSession :: "'h \<Rightarrow> string \<Rightarrow> string \<Rightarrow> File \<times> error option"
    \<comment> \<open>arguments: store, path, session\<close>
  Create :: "'h \<Rightarrow> string \<Rightarrow> string \<Rightarrow> string \<Rightarrow> error option \<times> 'h"
    \<comment> \<open>arguments: store, session, path, content; the \<^verbatim>\<open>File\<close> it returns is discarded by the code\<close>
  CreateVersion :: "'h \<Rightarrow> string \<Rightarrow> string \<Rightarrow> string \<Rightarrow> error option \<times> 'h"
  waitForLspDiagnostics :: "string \<Rightarrow> 'l \<Rightarrow> 'l"
  getDiagnostics :: "string \<Rightarrow> 'l \<Rightarrow> string"

record ('f, 'h, 'p, 'l) world =
  fs :: 'f
  records :: fileRecords  \<comment> \<open>the file state tracker\<close>
  now :: time  \<comment> \<open>what \<^verbatim>\<open>time.Now()\<close> returns\<close>
  files :: 'h  \<comment> \<open>the history store\<close>
  permissions :: 'p  \<comment> \<open>the permission broker\<close>
  requests :: "(CreatePermissionRequest \<times> bool) list"
    \<comment> \<open>every request submitted to the broker so far, with its answer\<close>
  lspClients :: 'l
  debugLog :: "string list"  \<comment> \<open>the messages of \<^verbatim>\<open>slog.Debug\<close>\<close>

subsection \<open>\<^verbatim>\<open>writeTool.Run\<close> (\<^verbatim>\<open>tools/write.go\<close>, lines 112 to 236)\<close>

text \<open>
  \<^verbatim>\<open>Run\<close> returns a \<^verbatim>\<open>(ToolResponse, error)\<close> pair; the model returns it with the
  world the call leaves. The body is cut into four definitions at lines 152, 165 and 195,
  each ending in a call of the next; they are given last part first.
\<close>

type_synonym ('f, 'h, 'p, 'l) outcome = "(ToolResponse \<times> error option) \<times> ('f, 'h, 'p, 'l) world"

definition historyVersionFailed :: string where
  "historyVersionFailed = ''Error creating file history version''"

definition logVersionError :: "error option \<Rightarrow> string list \<Rightarrow> string list" where
  \<comment> \<open>\<^verbatim>\<open>if err != nil { slog.Debug("Error creating file history version", "error", err) }\<close>\<close>
  "logVersionError err lg = (case err of None \<Rightarrow> lg | Some e \<Rightarrow> lg @ [historyVersionFailed])"

definition successText :: "string \<Rightarrow> string" where
  \<comment> \<open>lines 226 and 227\<close>
  "successText filePath = ''<result>'' @ [LF] @ (''File successfully written: '' @ filePath) @ [LF] @ ''</result>''"

definition Run_versions ::
  "('f, 'h, 'p, 'l) env \<Rightarrow> string \<Rightarrow> string \<Rightarrow> string \<Rightarrow> WriteParams \<Rightarrow> string \<times> int \<times> int \<Rightarrow>
   File \<Rightarrow> ('f, 'h, 'p, 'l) world \<Rightarrow> ('f, 'h, 'p, 'l) outcome" where
  \<comment> \<open>lines 209 to 235: \<open>file\<close> is what \<^verbatim>\<open>GetByPathAndSession\<close> returned\<close>
  "Run_versions e sessionID filePath oldContent params d file w =
     (let w1 = (if File.Content file \<noteq> oldContent
                then (let (err, h) = CreateVersion e (files w) sessionID filePath oldContent
                      in w\<lparr>files := h, debugLog := logVersionError err (debugLog w)\<rparr>)
                else w);
          (err, h) = CreateVersion e (files w1) sessionID filePath (WriteParams.Content params);
          w2 = w1\<lparr>files := h, debugLog := logVersionError err (debugLog w1)\<rparr>;
          w3 = w2\<lparr>records := recordFileRead (now w2) filePath (recordFileWrite (now w2) filePath (records w2))\<rparr>;
          w4 = w3\<lparr>lspClients := waitForLspDiagnostics e filePath (lspClients w3)\<rparr>;
          result = successText filePath @ getDiagnostics e filePath (lspClients w4)
      in ((WithResponseMetadata (NewTextResponse result)
             \<lparr>Diff = fst d, Additions = fst (snd d), Removals = snd (snd d)\<rparr>, None), w4))"

definition Run_write ::
  "('f, 'h, 'p, 'l) env \<Rightarrow> string \<Rightarrow> string \<Rightarrow> string \<Rightarrow> WriteParams \<Rightarrow> string \<times> int \<times> int \<Rightarrow>
   ('f, 'h, 'p, 'l) world \<Rightarrow> ('f, 'h, 'p, 'l) outcome" where
  \<comment> \<open>lines 195 to 208, then \<open>Run_versions\<close>\<close>
  "Run_write e sessionID filePath oldContent params d w =
     (let (err, f) = WriteFile e (fs w) filePath (WriteParams.Content params);
          w1 = w\<lparr>fs := f\<rparr>
      in case err of
           Some x \<Rightarrow> ((zeroToolResponse, Some (Errorf ''error writing file'' x)), w1)
         | None \<Rightarrow>
            (case GetByPathAndSession e (files w1) filePath sessionID of
               (file, Some x) \<Rightarrow>
                 (let (err, h) = Create e (files w1) sessionID filePath oldContent;
                      w2 = w1\<lparr>files := h\<rparr>
                  in case err of
                       Some y \<Rightarrow> ((zeroToolResponse, Some (Errorf ''error creating file history'' y)), w2)
                     | None \<Rightarrow> Run_versions e sessionID filePath oldContent params d file w2)
             | (file, None) \<Rightarrow> Run_versions e sessionID filePath oldContent params d file w1))"

definition permissionRequest ::
  "('f, 'h, 'p, 'l) env \<Rightarrow> writeTool \<Rightarrow> ToolCall \<Rightarrow> string \<Rightarrow> string \<Rightarrow> string \<Rightarrow> WriteParams \<Rightarrow>
   CreatePermissionRequest" where
  \<comment> \<open>lines 177 to 189: the request that \<^verbatim>\<open>Run\<close> submits\<close>
  "permissionRequest e t call sessionID filePath oldContent params =
     \<lparr>CreatePermissionRequest.SessionID = sessionID,
      CreatePermissionRequest.Path = PathOrPrefix (Rel e) filePath (workingDir t),
      ToolCallID = ID call,
      ToolName = ''write'',
      Action = ''write'',
      Description = ''Create file '' @ filePath,
      Params = \<lparr>WritePermissionsParams.FilePath = filePath,
                OldContent = oldContent,
                NewContent = WriteParams.Content params\<rparr>\<rparr>"

definition Run_request ::
  "('f, 'h, 'p, 'l) env \<Rightarrow> writeTool \<Rightarrow> Context \<Rightarrow> ToolCall \<Rightarrow> string \<Rightarrow> string \<Rightarrow> WriteParams \<Rightarrow>
   ('f, 'h, 'p, 'l) world \<Rightarrow> ('f, 'h, 'p, 'l) outcome" where
  \<comment> \<open>lines 165 to 193, then \<open>Run_write\<close>\<close>
  "Run_request e t ctx call filePath oldContent params w =
     (let (sessionID, messageID) = GetContextValues ctx
      in if sessionID = [] \<or> messageID = []
         then ((zeroToolResponse, Some (ErrText ''session_id and message_id are required'')), w)
         else
          (let d = GenerateDiff e oldContent (WriteParams.Content params) (TrimPrefix filePath (workingDir t));
               req = permissionRequest e t call sessionID filePath oldContent params;
               (p, b) = Request e (permissions w) req;
               w1 = w\<lparr>permissions := b, requests := requests w @ [(req, p)]\<rparr>
           in if \<not> p then ((zeroToolResponse, Some ErrorPermissionDenied), w1)
              else Run_write e sessionID filePath oldContent params d w1))"

definition capturedOld :: "('f, 'h, 'p, 'l) env \<Rightarrow> 'f \<Rightarrow> string \<Rightarrow> FileInfo option \<Rightarrow> string" where
  \<comment> \<open>lines 157 to 163: the value of \<^verbatim>\<open>oldContent\<close>; \<open>fileInfo\<close> is \<open>None\<close> for \<^verbatim>\<open>nil\<close>\<close>
  "capturedOld e f filePath fileInfo =
     (case fileInfo of
        None \<Rightarrow> []
      | Some fi \<Rightarrow>
          if \<not> IsDir fi
          then (case ReadFile e f filePath of Inr oldBytes \<Rightarrow> oldBytes | Inl readErr \<Rightarrow> [])
          else [])"

definition Run_mkdir ::
  "('f, 'h, 'p, 'l) env \<Rightarrow> writeTool \<Rightarrow> Context \<Rightarrow> ToolCall \<Rightarrow> string \<Rightarrow> FileInfo option \<Rightarrow> WriteParams \<Rightarrow>
   ('f, 'h, 'p, 'l) world \<Rightarrow> ('f, 'h, 'p, 'l) outcome" where
  \<comment> \<open>lines 152 to 163, then \<open>Run_request\<close>; \<open>fileInfo\<close> is \<open>None\<close> when \<^verbatim>\<open>os.Stat\<close> found no file\<close>
  "Run_mkdir e t ctx call filePath fileInfo params w =
     (let dir = Dir e filePath;
          (err, f) = MkdirAll e (fs w) dir;
          w1 = w\<lparr>fs := f\<rparr>
      in case err of
           Some x \<Rightarrow> ((zeroToolResponse, Some (Errorf ''error creating directory'' x)), w1)
         | None \<Rightarrow>
            (let oldContent = capturedOld e (fs w1) filePath fileInfo
             in Run_request e t ctx call filePath oldContent params w1))"

definition statInfo :: "('f, 'h, 'p, 'l) env \<Rightarrow> 'f \<Rightarrow> string \<Rightarrow> FileInfo option" where
  \<comment> \<open>line 131: the value of \<^verbatim>\<open>fileInfo\<close>, \<open>None\<close> for \<^verbatim>\<open>nil\<close>\<close>
  "statInfo e f fp = (case Stat e f fp of Inr i \<Rightarrow> Some i | Inl x \<Rightarrow> None)"

definition resolvePath :: "('f, 'h, 'p, 'l) env \<Rightarrow> writeTool \<Rightarrow> WriteParams \<Rightarrow> string" where
  \<comment> \<open>lines 126 to 129: the value of \<^verbatim>\<open>filePath\<close>\<close>
  "resolvePath e t params =
     (if \<not> IsAbs e (WriteParams.FilePath params)
      then Join e (workingDir t) (WriteParams.FilePath params)
      else WriteParams.FilePath params)"

definition Run ::
  "('f, 'h, 'p, 'l) env \<Rightarrow> writeTool \<Rightarrow> Context \<Rightarrow> ToolCall \<Rightarrow> ('f, 'h, 'p, 'l) world \<Rightarrow>
   ('f, 'h, 'p, 'l) outcome" where
  \<comment> \<open>lines 112 to 150, then \<open>Run_mkdir\<close>\<close>
  "Run e t ctx call w =
     (case Unmarshal e (Input call) of
        Inl err \<Rightarrow> ((NewTextErrorResponse (''error parsing parameters: '' @ err), None), w)
      | Inr params \<Rightarrow>
          if WriteParams.FilePath params = [] then ((NewTextErrorResponse ''file_path is required'', None), w)
          else if WriteParams.Content params = [] then ((NewTextErrorResponse ''content is required'', None), w)
          else
           (let filePath = resolvePath e t params
            in case Stat e (fs w) filePath of
                 Inr fileInfo \<Rightarrow>
                   if IsDir fileInfo
                   then ((NewTextErrorResponse (''Path is a directory, not a file: '' @ filePath), None), w)
                   else
                    (let modTime = ModTime fileInfo;
                         lastRead = getLastReadTime (records w) filePath
                     in if modTime > lastRead
                        then ((NewTextErrorResponse
                                 (''File '' @ filePath @ '' has been modified since it was last read.'' @ [LF] @
                                  ''Last modification: '' @ FormatRFC3339 e modTime @ [LF] @
                                  ''Last read: '' @ FormatRFC3339 e lastRead @ [LF, LF] @
                                  ''Please read the file again before modifying it.''), None), w)
                        else
                         (case ReadFile e (fs w) filePath of
                            Inr oldContent \<Rightarrow>
                              if oldContent = WriteParams.Content params
                              then ((NewTextErrorResponse
                                       (''File '' @ filePath @ '' already contains the exact content. No changes made.''),
                                     None), w)
                              else Run_mkdir e t ctx call filePath (Some fileInfo) params w
                          | Inl readErr \<Rightarrow> Run_mkdir e t ctx call filePath (Some fileInfo) params w))
               | Inl err \<Rightarrow>
                   if \<not> IsNotExist err
                   then ((zeroToolResponse, Some (Errorf ''error checking file'' err)), w)
                   else Run_mkdir e t ctx call filePath None params w))"

subsection \<open>An instance of the collaborators: Unix paths, a disk in memory\<close>

text \<open>
  The theorems about \<open>Run\<close> hold for every \<open>env\<close>. To run the model on inputs, the
  following instance gives Go's library its behaviour on Unix for slash-separated paths
  (the process's current directory is the root), a disk that is a map from cleaned
  absolute paths to nodes, a broker that gives one fixed answer, and no LSP client.
\<close>

abbreviation Sep :: char where "Sep \<equiv> CHR ''/''"

fun splitSep :: "string \<Rightarrow> string list" where
  "splitSep [] = [[]]"
| "splitSep (c # cs) =
     (if c = Sep then [] # splitSep cs
      else (case splitSep cs of x # xs \<Rightarrow> (c # x) # xs | [] \<Rightarrow> [[c]]))"

fun joinSep :: "string list \<Rightarrow> string" where
  "joinSep [] = []"
| "joinSep [x] = x"
| "joinSep (x # y # ys) = x @ [Sep] @ joinSep (y # ys)"

definition elems :: "string \<Rightarrow> string list" where
  \<comment> \<open>the elements of a path, without the empty ones and the dots\<close>
  "elems p = filter (\<lambda>x. x \<noteq> [] \<and> x \<noteq> ''.'') (splitSep p)"

definition cleanStep :: "bool \<Rightarrow> string list \<Rightarrow> string \<Rightarrow> string list" where
  "cleanStep rooted st x =
     (if x = ''..''
      then (if st \<noteq> [] \<and> last st \<noteq> ''..'' then butlast st
            else if rooted then st else st @ [x])
      else st @ [x])"

definition IsAbs_unix :: "string \<Rightarrow> bool" where
  "IsAbs_unix p = prefix [Sep] p"

definition Clean_unix :: "string \<Rightarrow> string" where
  \<comment> \<open>\<^verbatim>\<open>filepath.Clean\<close>\<close>
  "Clean_unix p =
     (let body = joinSep (foldl (cleanStep (IsAbs_unix p)) [] (elems p))
      in if IsAbs_unix p then [Sep] @ body else if body = [] then ''.'' else body)"

definition Join_unix :: "string \<Rightarrow> string \<Rightarrow> string" where
  \<comment> \<open>\<^verbatim>\<open>filepath.Join\<close> of two elements\<close>
  "Join_unix a b =
     (let es = filter (\<lambda>x. x \<noteq> []) [a, b]
      in if es = [] then [] else Clean_unix (joinSep es))"

definition Dir_unix :: "string \<Rightarrow> string" where
  \<comment> \<open>\<^verbatim>\<open>filepath.Dir\<close>: the path up to its last separator, cleaned\<close>
  "Dir_unix p = Clean_unix (rev (dropWhile (\<lambda>c. c \<noteq> Sep) (rev p)))"

fun dropCommon :: "string list \<Rightarrow> string list \<Rightarrow> string list \<times> string list" where
  "dropCommon (x # xs) (y # ys) = (if x = y then dropCommon xs ys else (x # xs, y # ys))"
| "dropCommon xs ys = (xs, ys)"

definition Rel_unix :: "string \<Rightarrow> string \<Rightarrow> error + string" where
  \<comment> \<open>\<^verbatim>\<open>filepath.Rel\<close>: climb out of what is left of the base, descend into what is left of
      the target\<close>
  "Rel_unix basepath targpath =
     (let base = Clean_unix basepath; targ = Clean_unix targpath
      in if targ = base then Inr ''.''
         else if IsAbs_unix base \<noteq> IsAbs_unix targ
         then Inl (ErrText (''Rel: cannot make '' @ targpath @ '' relative to '' @ basepath))
         else (case dropCommon (elems base) (elems targ) of
                 (bs, ts) \<Rightarrow>
                   if bs \<noteq> [] \<and> hd bs = ''..''
                   then Inl (ErrText (''Rel: cannot make '' @ targpath @ '' relative to '' @ basepath))
                   else Inr (joinSep (map (\<lambda>x. ''..'') bs @ ts))))"

datatype node = DirNode time | FileNode string time
  \<comment> \<open>a directory with its modification time; a regular file with its content and
      modification time\<close>

record disk =
  nodes :: "string \<rightharpoonup> node"
  tick :: time  \<comment> \<open>the modification time given to what is created or written next\<close>

definition key :: "string \<Rightarrow> string" where
  "key p = Clean_unix ([Sep] @ p)"

definition parents :: "string \<Rightarrow> string list" where
  \<comment> \<open>the proper ancestors of a cleaned absolute path, below the root, outermost first\<close>
  "parents k = map (\<lambda>n. [Sep] @ joinSep (take n (elems k))) [1..<length (elems k)]"

definition isDirNode :: "node option \<Rightarrow> bool" where
  "isDirNode x = (case x of Some (DirNode m) \<Rightarrow> True | _ \<Rightarrow> False)"

definition Stat_disk :: "disk \<Rightarrow> string \<Rightarrow> error + FileInfo" where
  "Stat_disk d p =
     (if \<not> list_all (\<lambda>q. isDirNode (nodes d q)) (parents (key p))
      then (if list_ex (\<lambda>q. case nodes d q of Some (FileNode c m) \<Rightarrow> True | _ \<Rightarrow> False) (parents (key p))
            then Inl (ErrText ''not a directory'') else Inl ErrNotExist)
      else (case nodes d (key p) of
              None \<Rightarrow> Inl ErrNotExist
            | Some (DirNode m) \<Rightarrow> Inr \<lparr>IsDir = True, ModTime = m\<rparr>
            | Some (FileNode c m) \<Rightarrow> Inr \<lparr>IsDir = False, ModTime = m\<rparr>))"

definition ReadFile_disk :: "disk \<Rightarrow> string \<Rightarrow> error + string" where
  "ReadFile_disk d p =
     (case nodes d (key p) of
        None \<Rightarrow> Inl ErrNotExist
      | Some (DirNode m) \<Rightarrow> Inl (ErrText ''is a directory'')
      | Some (FileNode c m) \<Rightarrow> Inr c)"

fun mkdirs :: "string list \<Rightarrow> disk \<Rightarrow> error option \<times> disk" where
  "mkdirs [] d = (None, d)"
| "mkdirs (q # qs) d =
     (case nodes d q of
        None \<Rightarrow> mkdirs qs (d\<lparr>nodes := (nodes d)(q \<mapsto> DirNode (tick d))\<rparr>)
      | Some (DirNode m) \<Rightarrow> mkdirs qs d
      | Some (FileNode c m) \<Rightarrow> (Some (ErrText ''not a directory''), d))"

definition MkdirAll_disk :: "disk \<Rightarrow> string \<Rightarrow> error option \<times> disk" where
  \<comment> \<open>\<^verbatim>\<open>os.MkdirAll\<close>: the directory and every missing ancestor, outermost first\<close>
  "MkdirAll_disk d p = (if key p = [Sep] then (None, d) else mkdirs (parents (key p) @ [key p]) d)"

definition WriteFile_disk :: "disk \<Rightarrow> string \<Rightarrow> string \<Rightarrow> error option \<times> disk" where
  "WriteFile_disk d p c =
     (if \<not> list_all (\<lambda>q. isDirNode (nodes d q)) (parents (key p)) then (Some ErrNotExist, d)
      else if isDirNode (nodes d (key p)) \<or> key p = [Sep] then (Some (ErrText ''is a directory''), d)
      else (None, d\<lparr>nodes := (nodes d)(key p \<mapsto> FileNode c (tick d))\<rparr>))"

abbreviation DQ :: char where "DQ \<equiv> CHR 0x22"

definition Unmarshal_flat :: "string \<Rightarrow> string + WriteParams" where
  \<comment> \<open>\<^verbatim>\<open>json.Unmarshal\<close> on the encoding \<^verbatim>\<open>{"file_path":"P","content":"C"}\<close> with no
      escape in \<^verbatim>\<open>P\<close> and \<^verbatim>\<open>C\<close>; this instance rejects every other input\<close>
  "Unmarshal_flat s =
     (let k1 = ''{'' @ [DQ] @ ''file_path'' @ [DQ] @ '':'' @ [DQ];
          k2 = [DQ] @ '','' @ [DQ] @ ''content'' @ [DQ] @ '':'' @ [DQ];
          k3 = [DQ] @ ''}'';
          r1 = drop (length k1) s;
          r2 = dropWhile (\<lambda>c. c \<noteq> DQ) r1;
          r3 = drop (length k2) r2;
          fp = takeWhile (\<lambda>c. c \<noteq> DQ) r1;
          ct = takeWhile (\<lambda>c. c \<noteq> DQ) r3
      in if prefix k1 s \<and> prefix k2 r2 \<and> dropWhile (\<lambda>c. c \<noteq> DQ) r3 = k3 \<and>
            CHR 0x5C \<notin> set fp \<and> CHR 0x5C \<notin> set ct
         then Inr \<lparr>WriteParams.FilePath = fp, WriteParams.Content = ct\<rparr>
         else Inl ''invalid character'')"

definition lineCount :: "string \<Rightarrow> nat" where
  "lineCount s = (if s = [] then 0 else if last s = LF then count_list s LF else Suc (count_list s LF))"

definition GenerateDiff_whole :: "string \<Rightarrow> string \<Rightarrow> string \<Rightarrow> string \<times> int \<times> int" where
  \<comment> \<open>a diff engine that reports every line of the old text removed and every line of the
      new text added, and the empty diff for equal texts\<close>
  "GenerateDiff_whole old new name =
     (if old = new then ([], 0, 0)
      else (''--- a/'' @ name @ [LF] @ ''+++ b/'' @ name @ [LF] @ ''-'' @ old @ [LF] @ ''+'' @ new @ [LF],
            int (lineCount new), int (lineCount old)))"

text \<open>
  Modelled from the spec: the history store (section 4.C), which is not among the sources:
  per (session, path) the contents of the versions in the order of their creation,
  append-only; \<open>getByPathAndSession\<close> returns the latest version or, with the zero
  \<^verbatim>\<open>File\<close>, the error that there is none; \<open>create\<close> and \<open>createVersion\<close> append a
  version, and fail without effect when the store cannot be written.
\<close>

record store =
  versions :: "string \<times> string \<Rightarrow> string list"  \<comment> \<open>keyed by (session, path)\<close>
  writable :: bool

definition GetByPathAndSession_store :: "store \<Rightarrow> string \<Rightarrow> string \<Rightarrow> File \<times> error option" where
  "GetByPathAndSession_store h path session =
     (case versions h (session, path) of
        [] \<Rightarrow> (zeroFile, Some (ErrText ''no rows in result set''))
      | v # vs \<Rightarrow>
          (\<lparr>File.SessionID = session, File.Path = path, File.Content = last (v # vs),
            Version = int (length vs)\<rparr>, None))"

definition CreateVersion_store :: "store \<Rightarrow> string \<Rightarrow> string \<Rightarrow> string \<Rightarrow> error option \<times> store" where
  "CreateVersion_store h session path content =
     (if writable h
      then (None, h\<lparr>versions := (versions h)((session, path) := versions h (session, path) @ [content])\<rparr>)
      else (Some (ErrText ''attempt to write a readonly database''), h))"

definition Create_store :: "store \<Rightarrow> string \<Rightarrow> string \<Rightarrow> string \<Rightarrow> error option \<times> store" where
  "Create_store h session path content = CreateVersion_store h session path content"

record broker =
  allow :: bool  \<comment> \<open>the answer the user gives to every request\<close>

definition Request_broker :: "broker \<Rightarrow> CreatePermissionRequest \<Rightarrow> bool \<times> broker" where
  "Request_broker b r = (allow b, b)"

fun decimal :: "nat \<Rightarrow> string" where
  \<comment> \<open>an instant is shown as the decimal number of its clock ticks\<close>
  "decimal n =
     (if n < 10 then [''0123456789'' ! n]
      else decimal (n div 10) @ [''0123456789'' ! (n mod 10)])"

declare decimal.simps [simp del]

definition unix :: "(disk, store, broker, unit) env" where
  "unix =
     \<lparr>Unmarshal = Unmarshal_flat,
      IsAbs = IsAbs_unix,
      Join = Join_unix,
      Dir = Dir_unix,
      Rel = Rel_unix,
      FormatRFC3339 = decimal,
      Stat = Stat_disk,
      ReadFile = ReadFile_disk,
      MkdirAll = MkdirAll_disk,
      WriteFile = WriteFile_disk,
      GenerateDiff = GenerateDiff_whole,
      Request = Request_broker,
      GetByPathAndSession = GetByPathAndSession_store,
      Create = Create_store,
      CreateVersion = CreateVersion_store,
      waitForLspDiagnostics = (\<lambda>path l. l),
      getDiagnostics = (\<lambda>path l. [])\<rparr>"

subsection \<open>Example states and calls\<close>

text \<open>
  A working directory \<^verbatim>\<open>/w\<close> with six files, all read at time 7: \<^verbatim>\<open>stale.txt\<close> was
  modified after that, at time 8. The session \<^verbatim>\<open>s1\<close> has one version of \<^verbatim>\<open>d.txt\<close> in
  its history, \<^verbatim>\<open>v1\<close>, and the file has been edited since by the user; it has two
  versions of \<^verbatim>\<open>f.txt\<close>, and the file is as the latest one. The parameters of
  \<open>exampleWorld\<close> are the broker's answer and whether the store can be written.
\<close>

definition exampleDisk :: disk where
  "exampleDisk =
     \<lparr>nodes = [''/w'' \<mapsto> DirNode 1,
               ''/w/b.txt'' \<mapsto> FileNode ''old'' 5,
               ''/w/c.txt'' \<mapsto> FileNode ''x'' 5,
               ''/w/d.txt'' \<mapsto> FileNode ''user-edit'' 6,
               ''/w/e.txt'' \<mapsto> FileNode [] 5,
               ''/w/f.txt'' \<mapsto> FileNode ''v1'' 5,
               ''/w/stale.txt'' \<mapsto> FileNode ''theirs'' 8],
      tick = 9\<rparr>"

definition exampleRecords :: fileRecords where
  "exampleRecords =
     [''/w/b.txt'' \<mapsto> \<lparr>readTime = 7, writeTime = 0\<rparr>,
      ''/w/c.txt'' \<mapsto> \<lparr>readTime = 7, writeTime = 0\<rparr>,
      ''/w/d.txt'' \<mapsto> \<lparr>readTime = 7, writeTime = 4\<rparr>,
      ''/w/e.txt'' \<mapsto> \<lparr>readTime = 7, writeTime = 0\<rparr>,
      ''/w/f.txt'' \<mapsto> \<lparr>readTime = 7, writeTime = 5\<rparr>,
      ''/w/stale.txt'' \<mapsto> \<lparr>readTime = 7, writeTime = 0\<rparr>]"

definition exampleStore :: "bool \<Rightarrow> store" where
  "exampleStore wr =
     \<lparr>versions = (\<lambda>k. [])((''s1'', ''/w/d.txt'') := [''v1''], (''s1'', ''/w/f.txt'') := [''v0'', ''v1'']),
      writable = wr\<rparr>"

definition exampleWorld :: "bool \<Rightarrow> bool \<Rightarrow> (disk, store, broker, unit) world" where
  "exampleWorld a wr =
     \<lparr>fs = exampleDisk, records = exampleRecords, now = 10, files = exampleStore wr,
      permissions = \<lparr>allow = a\<rparr>, requests = [], lspClients = (), debugLog = []\<rparr>"

definition exampleContext :: Context where
  "exampleContext = \<lparr>SessionIDContextKey = Some ''s1'', MessageIDContextKey = Some ''m1''\<rparr>"

definition exampleTool :: writeTool where
  "exampleTool = \<lparr>workingDir = ''/w''\<rparr>"

definition writeCall :: "string \<Rightarrow> string \<Rightarrow> ToolCall" where
  "writeCall p c =
     \<lparr>ID = ''c1'', Name = ''write'',
      Input = ''{'' @ [DQ] @ ''file_path'' @ [DQ] @ '':'' @ [DQ] @ p @ [DQ] @ '','' @
              [DQ] @ ''content'' @ [DQ] @ '':'' @ [DQ] @ c @ [DQ] @ ''}''\<rparr>"

definition exampleRequest :: "string \<Rightarrow> string \<Rightarrow> string \<Rightarrow> string \<Rightarrow> CreatePermissionRequest" where
  "exampleRequest scope p old new =
     \<lparr>CreatePermissionRequest.SessionID = ''s1'', Path = scope, ToolCallID = ''c1'',
      ToolName = ''write'', Action = ''write'', Description = ''Create file '' @ p,
      Params = \<lparr>WritePermissionsParams.FilePath = p, OldContent = old, NewContent = new\<rparr>\<rparr>"

section \<open>Properties of \<^verbatim>\<open>Run\<close>\<close>

subsection \<open>What each part of \<^verbatim>\<open>Run\<close> does to the state\<close>

lemma Run_versions_frame:
  "requests (snd (Run_versions e sid fp old params d got w)) = requests w"
  "permissions (snd (Run_versions e sid fp old params d got w)) = permissions w"
  "fs (snd (Run_versions e sid fp old params d got w)) = fs w"
  by (auto simp: Run_versions_def Let_def split: prod.splits if_splits)

lemma Run_versions_out:
  "snd (fst (Run_versions e sid fp old params d got w)) = None"
  "\<not> IsError (fst (fst (Run_versions e sid fp old params d got w)))"
  "ToolResponse.Content (fst (fst (Run_versions e sid fp old params d got w))) =
     successText fp @ getDiagnostics e fp (lspClients (snd (Run_versions e sid fp old params d got w)))"
  "Metadata (fst (fst (Run_versions e sid fp old params d got w))) =
     Some \<lparr>Diff = fst d, Additions = fst (snd d), Removals = snd (snd d)\<rparr>"
  by (auto simp: Run_versions_def Let_def NewTextResponse_def WithResponseMetadata_def split: prod.splits if_splits)

lemma Run_versions_store:
  assumes "h1 = (if File.Content got \<noteq> old then snd (CreateVersion e (files w) sid fp old) else files w)"
      and "l1 = (if File.Content got \<noteq> old
                 then logVersionError (fst (CreateVersion e (files w) sid fp old)) (debugLog w)
                 else debugLog w)"
  shows "files (snd (Run_versions e sid fp old params d got w)) =
           snd (CreateVersion e h1 sid fp (WriteParams.Content params))"
    and "debugLog (snd (Run_versions e sid fp old params d got w)) =
           logVersionError (fst (CreateVersion e h1 sid fp (WriteParams.Content params))) l1"
    and "records (snd (Run_versions e sid fp old params d got w)) =
           recordFileRead (now w) fp (recordFileWrite (now w) fp (records w))"
  using assms
  by (auto simp: Run_versions_def Let_def split: prod.splits if_splits)

lemma Run_write_frame:
  "requests (snd (Run_write e sid fp old params d w)) = requests w"
  "permissions (snd (Run_write e sid fp old params d w)) = permissions w"
  "fs (snd (Run_write e sid fp old params d w)) = snd (WriteFile e (fs w) fp (WriteParams.Content params))"
  by (auto simp: Run_write_def Let_def Run_versions_frame split: prod.splits option.splits)

lemma Run_request_answered:
  assumes "requests (snd (Run_request e t ctx call fp old params w)) = requests w @ [(req, ans)]"
  shows "req = permissionRequest e t call (fst (GetContextValues ctx)) fp old params"
    and "ans = fst (Request e (permissions w) req)"
    and "ans \<Longrightarrow> Run_request e t ctx call fp old params w =
           Run_write e (CreatePermissionRequest.SessionID req) fp old params
             (GenerateDiff e old (WriteParams.Content params) (TrimPrefix fp (workingDir t)))
             (w\<lparr>permissions := snd (Request e (permissions w) req),
                requests := requests w @ [(req, True)]\<rparr>)"
    and "\<not> ans \<Longrightarrow> Run_request e t ctx call fp old params w =
           ((zeroToolResponse, Some ErrorPermissionDenied),
            w\<lparr>permissions := snd (Request e (permissions w) req),
              requests := requests w @ [(req, False)]\<rparr>)"
  using assms
  by (auto simp: Run_request_def Let_def Run_write_frame permissionRequest_def split: prod.splits if_splits)

lemma Run_request_shape:
  "requests (snd (Run_request e t ctx call fp old params w)) = requests w \<or>
   (\<exists>req ans. requests (snd (Run_request e t ctx call fp old params w)) = requests w @ [(req, ans)])"
  by (auto simp: Run_request_def Let_def Run_write_frame split: prod.splits if_splits)

lemma Run_mkdir_answered:
  assumes "requests (snd (Run_mkdir e t ctx call fp fi params w)) = requests w @ [(req, ans)]"
  shows "fst (MkdirAll e (fs w) (Dir e fp)) = None"
    and "Run_mkdir e t ctx call fp fi params w =
           Run_request e t ctx call fp (capturedOld e (snd (MkdirAll e (fs w) (Dir e fp))) fp fi) params
             (w\<lparr>fs := snd (MkdirAll e (fs w) (Dir e fp))\<rparr>)"
  using assms
  by (auto simp: Run_mkdir_def Let_def split: prod.splits option.splits)

lemma Run_mkdir_shape:
  "requests (snd (Run_mkdir e t ctx call fp fi params w)) = requests w \<or>
   (\<exists>req ans. requests (snd (Run_mkdir e t ctx call fp fi params w)) = requests w @ [(req, ans)])"
proof (cases "fst (MkdirAll e (fs w) (Dir e fp))")
  case None
  then have "Run_mkdir e t ctx call fp fi params w =
           Run_request e t ctx call fp (capturedOld e (snd (MkdirAll e (fs w) (Dir e fp))) fp fi) params
             (w\<lparr>fs := snd (MkdirAll e (fs w) (Dir e fp))\<rparr>)"
    by (auto simp: Run_mkdir_def Let_def split: prod.splits)
  with Run_request_shape [of e t ctx call fp "capturedOld e (snd (MkdirAll e (fs w) (Dir e fp))) fp fi"
      params "w\<lparr>fs := snd (MkdirAll e (fs w) (Dir e fp))\<rparr>"]
  show ?thesis by simp
next
  case (Some x)
  then show ?thesis
    by (auto simp: Run_mkdir_def Let_def split: prod.splits)
qed

lemma Run_answered:
  assumes "requests (snd (Run e t ctx call w)) = requests w @ [(req, ans)]"
  shows "\<exists>params. Unmarshal e (Input call) = Inr params \<and>
           WriteParams.FilePath params \<noteq> [] \<and> WriteParams.Content params \<noteq> [] \<and>
           Run e t ctx call w =
             Run_mkdir e t ctx call (resolvePath e t params)
               (statInfo e (fs w) (resolvePath e t params)) params w"
  using assms
  by (auto simp: Run_def Let_def statInfo_def split: sum.splits if_splits)

lemma Run_shape:
  "requests (snd (Run e t ctx call w)) = requests w \<or>
   (\<exists>req ans. requests (snd (Run e t ctx call w)) = requests w @ [(req, ans)])"
proof (cases "\<exists>fp fi params. Run e t ctx call w = Run_mkdir e t ctx call fp fi params w")
  case True
  then show ?thesis
    using Run_mkdir_shape by metis
next
  case False
  then show ?thesis
    by (auto simp: Run_def Let_def split: sum.splits if_splits)
qed

lemma Run_request_info:
  assumes "requests (snd (Run e t ctx call w)) = requests w @ [(req, ans)]"
  shows "\<exists>params.
           Unmarshal e (Input call) = Inr params \<and>
           WriteParams.FilePath params \<noteq> [] \<and> WriteParams.Content params \<noteq> [] \<and>
           fst (MkdirAll e (fs w) (Dir e (resolvePath e t params))) = None \<and>
           req = permissionRequest e t call (fst (GetContextValues ctx)) (resolvePath e t params)
                   (capturedOld e (snd (MkdirAll e (fs w) (Dir e (resolvePath e t params))))
                      (resolvePath e t params) (statInfo e (fs w) (resolvePath e t params)))
                   params \<and>
           ans = fst (Request e (permissions w) req) \<and>
           Run e t ctx call w =
             Run_request e t ctx call (resolvePath e t params)
               (capturedOld e (snd (MkdirAll e (fs w) (Dir e (resolvePath e t params))))
                  (resolvePath e t params) (statInfo e (fs w) (resolvePath e t params)))
               params (w\<lparr>fs := snd (MkdirAll e (fs w) (Dir e (resolvePath e t params)))\<rparr>)"
proof -
  from Run_answered [OF assms] obtain params where
    p: "Unmarshal e (Input call) = Inr params" "WriteParams.FilePath params \<noteq> []"
       "WriteParams.Content params \<noteq> []" and
    r1: "Run e t ctx call w =
           Run_mkdir e t ctx call (resolvePath e t params)
             (statInfo e (fs w) (resolvePath e t params)) params w"
    by blast
  let ?fp = "resolvePath e t params"
  let ?fi = "statInfo e (fs w) ?fp"
  let ?f1 = "snd (MkdirAll e (fs w) (Dir e ?fp))"
  from assms r1 have q1: "requests (snd (Run_mkdir e t ctx call ?fp ?fi params w)) = requests w @ [(req, ans)]"
    by simp
  note m = Run_mkdir_answered [OF q1]
  from q1 m(2) have q2: "requests (snd (Run_request e t ctx call ?fp (capturedOld e ?f1 ?fp ?fi) params (w\<lparr>fs := ?f1\<rparr>)))
      = requests (w\<lparr>fs := ?f1\<rparr>) @ [(req, ans)]"
    by simp
  note a = Run_request_answered(1,2) [OF q2]
  from p m r1 a show ?thesis
    by auto
qed

lemma Run_denied:
  assumes "requests (snd (Run e t ctx call w)) = requests w @ [(req, False)]"
  shows "Run e t ctx call w =
           ((zeroToolResponse, Some ErrorPermissionDenied),
            w\<lparr>fs := snd (MkdirAll e (fs w) (Dir e (WritePermissionsParams.FilePath (Params req)))),
              permissions := snd (Request e (permissions w) req),
              requests := requests w @ [(req, False)]\<rparr>)"
proof -
  from Run_request_info [OF assms] obtain params where
    rq: "req = permissionRequest e t call (fst (GetContextValues ctx)) (resolvePath e t params)
                   (capturedOld e (snd (MkdirAll e (fs w) (Dir e (resolvePath e t params))))
                      (resolvePath e t params) (statInfo e (fs w) (resolvePath e t params)))
                   params" and
    r: "Run e t ctx call w =
             Run_request e t ctx call (resolvePath e t params)
               (capturedOld e (snd (MkdirAll e (fs w) (Dir e (resolvePath e t params))))
                  (resolvePath e t params) (statInfo e (fs w) (resolvePath e t params)))
               params (w\<lparr>fs := snd (MkdirAll e (fs w) (Dir e (resolvePath e t params)))\<rparr>)"
    by blast
  from rq have fp: "WritePermissionsParams.FilePath (Params req) = resolvePath e t params"
    by (simp add: permissionRequest_def)
  from assms r have q: "requests (snd (Run_request e t ctx call (resolvePath e t params)
               (capturedOld e (snd (MkdirAll e (fs w) (Dir e (resolvePath e t params))))
                  (resolvePath e t params) (statInfo e (fs w) (resolvePath e t params)))
               params (w\<lparr>fs := snd (MkdirAll e (fs w) (Dir e (resolvePath e t params)))\<rparr>)))
       = requests (w\<lparr>fs := snd (MkdirAll e (fs w) (Dir e (resolvePath e t params)))\<rparr>) @ [(req, False)]"
    by simp
  from Run_request_answered(4) [OF q] r fp show ?thesis
    by simp
qed

lemma Run_granted:
  assumes "requests (snd (Run e t ctx call w)) = requests w @ [(req, True)]"
  shows "\<exists>params.
           Unmarshal e (Input call) = Inr params \<and>
           Run e t ctx call w =
             Run_write e (CreatePermissionRequest.SessionID req)
               (WritePermissionsParams.FilePath (Params req)) (OldContent (Params req)) params
               (GenerateDiff e (OldContent (Params req)) (NewContent (Params req))
                  (TrimPrefix (WritePermissionsParams.FilePath (Params req)) (workingDir t)))
               (w\<lparr>fs := snd (MkdirAll e (fs w) (Dir e (WritePermissionsParams.FilePath (Params req)))),
                  permissions := snd (Request e (permissions w) req),
                  requests := requests w @ [(req, True)]\<rparr>) \<and>
           WriteParams.Content params = NewContent (Params req)"
proof -
  from Run_request_info [OF assms] obtain params where
    p: "Unmarshal e (Input call) = Inr params" and
    rq: "req = permissionRequest e t call (fst (GetContextValues ctx)) (resolvePath e t params)
                   (capturedOld e (snd (MkdirAll e (fs w) (Dir e (resolvePath e t params))))
                      (resolvePath e t params) (statInfo e (fs w) (resolvePath e t params)))
                   params" and
    r: "Run e t ctx call w =
             Run_request e t ctx call (resolvePath e t params)
               (capturedOld e (snd (MkdirAll e (fs w) (Dir e (resolvePath e t params))))
                  (resolvePath e t params) (statInfo e (fs w) (resolvePath e t params)))
               params (w\<lparr>fs := snd (MkdirAll e (fs w) (Dir e (resolvePath e t params)))\<rparr>)"
    by blast
  let ?fp = "resolvePath e t params"
  let ?old = "capturedOld e (snd (MkdirAll e (fs w) (Dir e ?fp))) ?fp (statInfo e (fs w) ?fp)"
  from rq have f: "WritePermissionsParams.FilePath (Params req) = ?fp"
      "OldContent (Params req) = ?old" "NewContent (Params req) = WriteParams.Content params"
    by (simp_all add: permissionRequest_def)
  from assms r have q: "requests (snd (Run_request e t ctx call ?fp ?old
               params (w\<lparr>fs := snd (MkdirAll e (fs w) (Dir e ?fp))\<rparr>)))
       = requests (w\<lparr>fs := snd (MkdirAll e (fs w) (Dir e ?fp))\<rparr>) @ [(req, True)]"
    by simp
  from Run_request_answered(3) [OF q] r f p show ?thesis
    by simp
qed

lemma Run_write_failed:
  assumes "fst (WriteFile e (fs w) fp (WriteParams.Content params)) = Some x"
  shows "Run_write e sid fp old params d w =
           ((zeroToolResponse, Some (Errorf ''error writing file'' x)),
            w\<lparr>fs := snd (WriteFile e (fs w) fp (WriteParams.Content params))\<rparr>)"
  using assms by (auto simp: Run_write_def Let_def split: prod.splits)

lemma Run_write_present:
  assumes "fst (WriteFile e (fs w) fp (WriteParams.Content params)) = None"
      and "GetByPathAndSession e (files w) fp sid = (file, None)"
  shows "Run_write e sid fp old params d w =
           Run_versions e sid fp old params d file
             (w\<lparr>fs := snd (WriteFile e (fs w) fp (WriteParams.Content params))\<rparr>)"
  using assms by (auto simp: Run_write_def Let_def split: prod.splits)

lemma Run_write_absent:
  assumes "fst (WriteFile e (fs w) fp (WriteParams.Content params)) = None"
      and "GetByPathAndSession e (files w) fp sid = (file, Some x)"
  shows "fst (Create e (files w) sid fp old) = None \<Longrightarrow>
         Run_write e sid fp old params d w =
           Run_versions e sid fp old params d file
             (w\<lparr>fs := snd (WriteFile e (fs w) fp (WriteParams.Content params)),
                files := snd (Create e (files w) sid fp old)\<rparr>)"
    and "fst (Create e (files w) sid fp old) = Some y \<Longrightarrow>
         Run_write e sid fp old params d w =
           ((zeroToolResponse, Some (Errorf ''error creating file history'' y)),
            w\<lparr>fs := snd (WriteFile e (fs w) fp (WriteParams.Content params)),
              files := snd (Create e (files w) sid fp old)\<rparr>)"
  using assms by (auto simp: Run_write_def Let_def split: prod.splits)

lemma Run_write_success:
  assumes "snd (fst (Run_write e sid fp old params d w)) = None"
  shows "\<not> IsError (fst (fst (Run_write e sid fp old params d w)))"
    and "ToolResponse.Content (fst (fst (Run_write e sid fp old params d w))) =
           successText fp @ getDiagnostics e fp (lspClients (snd (Run_write e sid fp old params d w)))"
    and "Metadata (fst (fst (Run_write e sid fp old params d w))) =
           Some \<lparr>Diff = fst d, Additions = fst (snd d), Removals = snd (snd d)\<rparr>"
    and "fst (WriteFile e (fs w) fp (WriteParams.Content params)) = None"
  using assms
  by (auto simp: Run_write_def Let_def Run_versions_out split: prod.splits option.splits)

lemma Run_request_unanswered:
  assumes "requests (snd (Run_request e t ctx call fp old params w)) = requests w"
  shows "snd (fst (Run_request e t ctx call fp old params w)) \<noteq> None"
  using assms
  by (auto simp: Run_request_def Let_def Run_write_frame split: prod.splits if_splits)

lemma Run_mkdir_unanswered:
  assumes "requests (snd (Run_mkdir e t ctx call fp fi params w)) = requests w"
  shows "snd (fst (Run_mkdir e t ctx call fp fi params w)) \<noteq> None"
proof (cases "fst (MkdirAll e (fs w) (Dir e fp))")
  case None
  then have eq: "Run_mkdir e t ctx call fp fi params w =
           Run_request e t ctx call fp (capturedOld e (snd (MkdirAll e (fs w) (Dir e fp))) fp fi) params
             (w\<lparr>fs := snd (MkdirAll e (fs w) (Dir e fp))\<rparr>)"
    by (auto simp: Run_mkdir_def Let_def split: prod.splits)
  with assms have "requests (snd (Run_request e t ctx call fp
        (capturedOld e (snd (MkdirAll e (fs w) (Dir e fp))) fp fi) params
        (w\<lparr>fs := snd (MkdirAll e (fs w) (Dir e fp))\<rparr>))) = requests (w\<lparr>fs := snd (MkdirAll e (fs w) (Dir e fp))\<rparr>)"
    by simp
  from Run_request_unanswered [OF this] eq show ?thesis
    by simp
next
  case (Some x)
  then show ?thesis
    by (auto simp: Run_mkdir_def Let_def split: prod.splits)
qed

lemma Run_unanswered:
  assumes "requests (snd (Run e t ctx call w)) = requests w"
  shows "snd (fst (Run e t ctx call w)) \<noteq> None \<or> IsError (fst (fst (Run e t ctx call w)))"
proof (cases "\<exists>fp fi params. Run e t ctx call w = Run_mkdir e t ctx call fp fi params w")
  case True
  with assms Run_mkdir_unanswered show ?thesis
    by metis
next
  case False
  then show ?thesis
    by (auto simp: Run_def Let_def NewTextErrorResponse_def split: sum.splits if_splits)
qed

lemma Run_success:
  assumes "snd (fst (Run e t ctx call w)) = None" and "\<not> IsError (fst (fst (Run e t ctx call w)))"
  shows "\<exists>req. requests (snd (Run e t ctx call w)) = requests w @ [(req, True)]"
proof -
  from assms Run_unanswered [of e t ctx call w] Run_shape [of e t ctx call w]
  obtain req ans where q: "requests (snd (Run e t ctx call w)) = requests w @ [(req, ans)]"
    by auto
  have "ans"
  proof (rule ccontr)
    assume "\<not> ans"
    with q have "requests (snd (Run e t ctx call w)) = requests w @ [(req, False)]"
      by simp
    from Run_denied [OF this] assms(1) show False
      by simp
  qed
  with q show ?thesis
    by auto
qed

lemma Run_versions_result:
  "(snd (fst (Run_versions e sid fp old params d file w)) \<noteq> None \<longrightarrow>
      fst (fst (Run_versions e sid fp old params d file w)) = zeroToolResponse) \<and>
   (IsError (fst (fst (Run_versions e sid fp old params d file w))) \<longrightarrow>
      snd (fst (Run_versions e sid fp old params d file w)) = None)"
  by (simp add: Run_versions_out)

lemma Run_write_result:
  "(snd (fst (Run_write e sid fp old params d w)) \<noteq> None \<longrightarrow>
      fst (fst (Run_write e sid fp old params d w)) = zeroToolResponse) \<and>
   (IsError (fst (fst (Run_write e sid fp old params d w))) \<longrightarrow>
      snd (fst (Run_write e sid fp old params d w)) = None)"
  by (auto simp: Run_write_def Let_def Run_versions_out zeroToolResponse_def split: prod.splits option.splits)

lemma Run_request_result:
  "(snd (fst (Run_request e t ctx call fp old params w)) \<noteq> None \<longrightarrow>
      fst (fst (Run_request e t ctx call fp old params w)) = zeroToolResponse) \<and>
   (IsError (fst (fst (Run_request e t ctx call fp old params w))) \<longrightarrow>
      snd (fst (Run_request e t ctx call fp old params w)) = None)"
  using Run_write_result [of e _ fp old params]
  by (auto simp: Run_request_def Let_def zeroToolResponse_def split: prod.splits)

lemma Run_mkdir_result:
  "(snd (fst (Run_mkdir e t ctx call fp fi params w)) \<noteq> None \<longrightarrow>
      fst (fst (Run_mkdir e t ctx call fp fi params w)) = zeroToolResponse) \<and>
   (IsError (fst (fst (Run_mkdir e t ctx call fp fi params w))) \<longrightarrow>
      snd (fst (Run_mkdir e t ctx call fp fi params w)) = None)"
  using Run_request_result [of e t ctx call fp _ params]
  by (auto simp: Run_mkdir_def Let_def zeroToolResponse_def split: prod.splits option.splits)

lemma Run_result:
  "(snd (fst (Run e t ctx call w)) \<noteq> None \<longrightarrow> fst (fst (Run e t ctx call w)) = zeroToolResponse) \<and>
   (IsError (fst (fst (Run e t ctx call w))) \<longrightarrow> snd (fst (Run e t ctx call w)) = None)"
  using Run_mkdir_result [of e t ctx call _ _ _ w]
  by (auto simp: Run_def Let_def zeroToolResponse_def NewTextErrorResponse_def split: sum.splits)

lemma Run_success_write:
  assumes "snd (fst (Run e t ctx call w)) = None" and "\<not> IsError (fst (fst (Run e t ctx call w)))"
      and "requests (snd (Run e t ctx call w)) = requests w @ [(req, ans)]"
  shows "ans"
    and "fst (WriteFile e (snd (MkdirAll e (fs w) (Dir e (WritePermissionsParams.FilePath (Params req)))))
           (WritePermissionsParams.FilePath (Params req)) (NewContent (Params req))) = None"
proof -
  show a: "ans"
  proof (rule ccontr)
    assume "\<not> ans"
    with assms(3) have "requests (snd (Run e t ctx call w)) = requests w @ [(req, False)]"
      by simp
    from Run_denied [OF this] assms(1) show False
      by simp
  qed
  with assms(3) have "requests (snd (Run e t ctx call w)) = requests w @ [(req, True)]"
    by simp
  from Run_granted [OF this] obtain params where
    r: "Run e t ctx call w =
             Run_write e (CreatePermissionRequest.SessionID req)
               (WritePermissionsParams.FilePath (Params req)) (OldContent (Params req)) params
               (GenerateDiff e (OldContent (Params req)) (NewContent (Params req))
                  (TrimPrefix (WritePermissionsParams.FilePath (Params req)) (workingDir t)))
               (w\<lparr>fs := snd (MkdirAll e (fs w) (Dir e (WritePermissionsParams.FilePath (Params req)))),
                  permissions := snd (Request e (permissions w) req),
                  requests := requests w @ [(req, True)]\<rparr>)" and
    c: "WriteParams.Content params = NewContent (Params req)"
    by blast
  from assms(1) r Run_write_success(4) [of e "CreatePermissionRequest.SessionID req"
      "WritePermissionsParams.FilePath (Params req)" "OldContent (Params req)" params _
      "w\<lparr>fs := snd (MkdirAll e (fs w) (Dir e (WritePermissionsParams.FilePath (Params req)))),
                  permissions := snd (Request e (permissions w) req),
                  requests := requests w @ [(req, True)]\<rparr>"] c
  show "fst (WriteFile e (snd (MkdirAll e (fs w) (Dir e (WritePermissionsParams.FilePath (Params req)))))
           (WritePermissionsParams.FilePath (Params req)) (NewContent (Params req))) = None"
    by simp
qed

lemma Run_written:
  assumes "requests (snd (Run e t ctx call w)) = requests w @ [(req, True)]"
      and "fst (WriteFile e (snd (MkdirAll e (fs w) (Dir e (WritePermissionsParams.FilePath (Params req)))))
           (WritePermissionsParams.FilePath (Params req)) (NewContent (Params req))) = None"
      and "GetByPathAndSession e (files w) (WritePermissionsParams.FilePath (Params req))
             (CreatePermissionRequest.SessionID req) = (file, gerr)"
      and "Create e (files w) (CreatePermissionRequest.SessionID req)
             (WritePermissionsParams.FilePath (Params req)) (OldContent (Params req)) = (cerr, h0)"
  shows "gerr \<noteq> None \<Longrightarrow> cerr = Some y \<Longrightarrow>
           fst (Run e t ctx call w) = (zeroToolResponse, Some (Errorf ''error creating file history'' y)) \<and>
           debugLog (snd (Run e t ctx call w)) = debugLog w \<and> files (snd (Run e t ctx call w)) = h0"
    and "gerr = None \<or> cerr = None \<Longrightarrow>
           \<exists>params d w1.
             Run e t ctx call w =
               Run_versions e (CreatePermissionRequest.SessionID req)
                 (WritePermissionsParams.FilePath (Params req)) (OldContent (Params req)) params d file w1 \<and>
             WriteParams.Content params = NewContent (Params req) \<and>
             files w1 = (if gerr = None then files w else h0) \<and> debugLog w1 = debugLog w"
proof -
  let ?sid = "CreatePermissionRequest.SessionID req"
  let ?fp = "WritePermissionsParams.FilePath (Params req)"
  let ?old = "OldContent (Params req)"
  let ?w1 = "w\<lparr>fs := snd (MkdirAll e (fs w) (Dir e ?fp)),
                  permissions := snd (Request e (permissions w) req),
                  requests := requests w @ [(req, True)]\<rparr>"
  from Run_granted [OF assms(1)] obtain params where
    r: "Run e t ctx call w =
             Run_write e ?sid ?fp ?old params
               (GenerateDiff e ?old (NewContent (Params req)) (TrimPrefix ?fp (workingDir t))) ?w1" and
    c: "WriteParams.Content params = NewContent (Params req)"
    by blast
  from assms(2) c have wf: "fst (WriteFile e (fs ?w1) ?fp (WriteParams.Content params)) = None"
    by simp
  from assms(3) have g: "GetByPathAndSession e (files ?w1) ?fp ?sid = (file, gerr)"
    by simp
  from assms(4) have cr: "fst (Create e (files ?w1) ?sid ?fp ?old) = cerr"
      "snd (Create e (files ?w1) ?sid ?fp ?old) = h0"
    by simp_all
  {
    assume "gerr \<noteq> None" and y: "cerr = Some y"
    then obtain x where x: "gerr = Some x" by auto
    from Run_write_absent(2) [OF wf g [unfolded x], of ?old y] cr y r
    show "fst (Run e t ctx call w) = (zeroToolResponse, Some (Errorf ''error creating file history'' y)) \<and>
           debugLog (snd (Run e t ctx call w)) = debugLog w \<and> files (snd (Run e t ctx call w)) = h0"
      by simp
  }
  {
    assume o: "gerr = None \<or> cerr = None"
    show "\<exists>params d w1.
             Run e t ctx call w = Run_versions e ?sid ?fp ?old params d file w1 \<and>
             WriteParams.Content params = NewContent (Params req) \<and>
             files w1 = (if gerr = None then files w else h0) \<and> debugLog w1 = debugLog w"
    proof (cases gerr)
      case None
      from Run_write_present [OF wf g [unfolded None]] r c None show ?thesis
        by (intro exI conjI) (assumption | simp)+
    next
      case (Some x)
      with o have "cerr = None" by simp
      with cr have "fst (Create e (files ?w1) ?sid ?fp ?old) = None" by simp
      from Run_write_absent(1) [OF wf g [unfolded Some] this] r c Some cr show ?thesis
        by (intro exI conjI) (assumption | simp)+
    qed
  }
qed

subsection \<open>The disk in memory: \<^verbatim>\<open>os.MkdirAll\<close> writes no file\<close>

text \<open>
  On the disk of the instance, \<open>MkdirAll_disk\<close> keeps every node there is and adds
  directories only: the regular files after it are the regular files before it, with
  their contents and modification times.
\<close>

lemma mkdirs_keeps:
  "nodes d q = Some n \<Longrightarrow> nodes (snd (mkdirs qs d)) q = Some n"
proof (induction qs arbitrary: d)
  case Nil
  then show ?case by simp
next
  case (Cons p ps)
  show ?case
  proof (cases "nodes d p")
    case None
    with Cons.prems have "p \<noteq> q" by auto
    with Cons.prems have "nodes (d\<lparr>nodes := (nodes d)(p \<mapsto> DirNode (tick d))\<rparr>) q = Some n"
      by simp
    from Cons.IH [OF this] None show ?thesis
      by simp
  next
    case (Some m)
    with Cons.IH [OF Cons.prems] Cons.prems show ?thesis
      by (cases m) simp_all
  qed
qed

lemma mkdirs_adds_directories:
  "nodes (snd (mkdirs qs d)) q = Some (FileNode c m) \<Longrightarrow> nodes d q = Some (FileNode c m)"
proof (induction qs arbitrary: d)
  case Nil
  then show ?case by simp
next
  case (Cons p ps)
  show ?case
  proof (cases "nodes d p")
    case None
    with Cons.prems have "nodes (snd (mkdirs ps (d\<lparr>nodes := (nodes d)(p \<mapsto> DirNode (tick d))\<rparr>))) q =
        Some (FileNode c m)"
      by simp
    from Cons.IH [OF this] show ?thesis
      by (simp split: if_splits)
  next
    case (Some k)
    with Cons.prems Cons.IH [of d] show ?thesis
      by (cases k) simp_all
  qed
qed

lemma MkdirAll_disk_files:
  "nodes (snd (MkdirAll_disk d p)) q = Some (FileNode c m) \<longleftrightarrow> nodes d q = Some (FileNode c m)"
  using mkdirs_keeps [of d q "FileNode c m"] mkdirs_adds_directories [of _ d q c m]
  by (auto simp: MkdirAll_disk_def)

subsection \<open>Permission gating\<close>

text \<open>
  Claim C1, as amended. When the permission broker denies the request of a write-tool
  call, \<open>Run\<close> returns the error \<open>ErrorPermissionDenied\<close> with the zero response (not a
  content-error response); the history store and the file state tracker are as before the
  call, and no file is written: the file system is the one that the \<^verbatim>\<open>os.MkdirAll\<close> of the
  target's parent directory left, which \<open>Run\<close> calls before it asks for permission.
  As stated, with no directory created, the claim fails: see the counterexample.
\<close>

theorem C1_denied_amended:
  assumes "Run e t ctx call w = ((resp, err), w')"
      and "requests w' = requests w @ [(req, False)]"
  shows "err = Some ErrorPermissionDenied \<and> resp = zeroToolResponse \<and>
         files w' = files w \<and> records w' = records w \<and>
         fs w' = snd (MkdirAll e (fs w) (Dir e (WritePermissionsParams.FilePath (Params req))))"
proof -
  from assms have "requests (snd (Run e t ctx call w)) = requests w @ [(req, False)]"
    by simp
  from Run_denied [OF this] assms(1) show ?thesis
    by auto
qed

theorem C1_denied_amended_witness:
  "requests (snd (Run unix exampleTool exampleContext (writeCall ''new/a.txt'' ''hello'') (exampleWorld False True))) =
     [(exampleRequest ''/w'' ''/w/new/a.txt'' [] ''hello'', False)] \<and>
   fst (Run unix exampleTool exampleContext (writeCall ''new/a.txt'' ''hello'') (exampleWorld False True)) =
     (zeroToolResponse, Some ErrorPermissionDenied) \<and>
   files (snd (Run unix exampleTool exampleContext (writeCall ''new/a.txt'' ''hello'') (exampleWorld False True))) =
     exampleStore True \<and>
   records (snd (Run unix exampleTool exampleContext (writeCall ''new/a.txt'' ''hello'') (exampleWorld False True))) =
     exampleRecords \<and>
   fs (snd (Run unix exampleTool exampleContext (writeCall ''new/a.txt'' ''hello'') (exampleWorld False True))) =
     snd (MkdirAll_disk exampleDisk ''/w/new'')"
proof -
  let ?run = "Run unix exampleTool exampleContext (writeCall ''new/a.txt'' ''hello'') (exampleWorld False True)"
  have h1: "?run = ((fst (fst ?run), snd (fst ?run)), snd ?run)"
    by simp
  have h2: "requests (snd ?run) =
      requests (exampleWorld False True) @ [(exampleRequest ''/w'' ''/w/new/a.txt'' [] ''hello'', False)]"
    by code_simp
  have h3: "Dir unix ''/w/new/a.txt'' = ''/w/new''"
    by code_simp
  from C1_denied_amended [OF h1 h2] h2 h3 show ?thesis
    by (simp add: exampleWorld_def exampleRequest_def unix_def prod_eq_iff)
qed

theorem C1_counterexample:
  "snd (fst (Run unix exampleTool exampleContext (writeCall ''new/a.txt'' ''hello'') (exampleWorld False True))) =
     Some ErrorPermissionDenied \<and>
   map snd (requests (snd (Run unix exampleTool exampleContext (writeCall ''new/a.txt'' ''hello'')
      (exampleWorld False True)))) = [False] \<and>
   nodes (fs (exampleWorld False True)) ''/w/new'' = None \<and>
   nodes (fs (snd (Run unix exampleTool exampleContext (writeCall ''new/a.txt'' ''hello'')
      (exampleWorld False True)))) ''/w/new'' = Some (DirNode 9)"
  by code_simp

subsection \<open>Conflict detection\<close>

text \<open>
  Claim C2. For every path at which a file exists at entry (\<^verbatim>\<open>os.Stat\<close> of the resolved path
  succeeds), if the file's modification time is strictly after the tracker's last-read
  time for the path, \<open>Run\<close> returns a content-error response (\<open>IsError\<close>, no error) and
  leaves the whole state as it was: no file system, history or tracker change. When the
  parameters are valid and the path is not a directory, the response is the message that
  the file has been modified since it was last read.
\<close>

theorem C2_stale_file_rejected:
  assumes "Unmarshal e (Input call) = Inr params"
      and "Stat e (fs w) (resolvePath e t params) = Inr fileInfo"
      and "ModTime fileInfo > getLastReadTime (records w) (resolvePath e t params)"
  shows "snd (Run e t ctx call w) = w \<and>
         snd (fst (Run e t ctx call w)) = None \<and>
         IsError (fst (fst (Run e t ctx call w))) \<and>
         (WriteParams.FilePath params \<noteq> [] \<and> WriteParams.Content params \<noteq> [] \<and> \<not> IsDir fileInfo \<longrightarrow>
          ToolResponse.Content (fst (fst (Run e t ctx call w))) =
            ''File '' @ resolvePath e t params @ '' has been modified since it was last read.'' @ [LF] @
            ''Last modification: '' @ FormatRFC3339 e (ModTime fileInfo) @ [LF] @
            ''Last read: '' @ FormatRFC3339 e (getLastReadTime (records w) (resolvePath e t params)) @ [LF, LF] @
            ''Please read the file again before modifying it.'')"
  using assms
  by (simp add: Run_def Let_def NewTextErrorResponse_def)

theorem C2_stale_file_rejected_witness:
  "Unmarshal unix (Input (writeCall ''stale.txt'' ''mine'')) =
     Inr \<lparr>WriteParams.FilePath = ''stale.txt'', WriteParams.Content = ''mine''\<rparr> \<and>
   resolvePath unix exampleTool \<lparr>WriteParams.FilePath = ''stale.txt'', WriteParams.Content = ''mine''\<rparr> = ''/w/stale.txt'' \<and>
   Stat unix (fs (exampleWorld True True)) ''/w/stale.txt'' = Inr \<lparr>IsDir = False, ModTime = 8\<rparr> \<and>
   getLastReadTime (records (exampleWorld True True)) ''/w/stale.txt'' = 7 \<and>
   snd (Run unix exampleTool exampleContext (writeCall ''stale.txt'' ''mine'') (exampleWorld True True)) =
     exampleWorld True True \<and>
   snd (fst (Run unix exampleTool exampleContext (writeCall ''stale.txt'' ''mine'') (exampleWorld True True))) = None \<and>
   IsError (fst (fst (Run unix exampleTool exampleContext (writeCall ''stale.txt'' ''mine'') (exampleWorld True True))))"
proof -
  let ?params = "\<lparr>WriteParams.FilePath = ''stale.txt'', WriteParams.Content = ''mine''\<rparr>"
  have h1: "Unmarshal unix (Input (writeCall ''stale.txt'' ''mine'')) = Inr ?params"
    by code_simp
  have p: "resolvePath unix exampleTool ?params = ''/w/stale.txt''"
    by code_simp
  have s: "Stat unix (fs (exampleWorld True True)) ''/w/stale.txt'' = Inr \<lparr>IsDir = False, ModTime = 8\<rparr>"
    by code_simp
  have r: "getLastReadTime (records (exampleWorld True True)) ''/w/stale.txt'' = 7"
    by code_simp
  from p s have h2: "Stat unix (fs (exampleWorld True True)) (resolvePath unix exampleTool ?params) =
      Inr \<lparr>IsDir = False, ModTime = 8\<rparr>"
    by simp
  from p r have h3: "ModTime \<lparr>IsDir = False, ModTime = 8\<rparr> >
      getLastReadTime (records (exampleWorld True True)) (resolvePath unix exampleTool ?params)"
    by simp
  from C2_stale_file_rejected [OF h1 h2 h3, of exampleContext] h1 p s r show ?thesis
    by simp
qed

text \<open>
  Claim C6, as amended. For every write-tool call with a non-empty path and a non-empty
  content that targets an existing regular file which passes the staleness check and
  whose content on disk is byte-identical to the requested content, \<open>Run\<close> returns the
  content-error response saying that the file already contains the exact content, and the
  state is as before the call: no history version is appended, no file is written and no
  permission request is made. As stated, for every content, the claim fails for the empty
  content and an empty file, where the response is that the content is required: see the
  counterexample.
\<close>

theorem C6_identical_content_amended:
  assumes "Unmarshal e (Input call) = Inr params"
      and "WriteParams.FilePath params \<noteq> []" and "WriteParams.Content params \<noteq> []"
      and "Stat e (fs w) (resolvePath e t params) = Inr fileInfo" and "\<not> IsDir fileInfo"
      and "\<not> ModTime fileInfo > getLastReadTime (records w) (resolvePath e t params)"
      and "ReadFile e (fs w) (resolvePath e t params) = Inr (WriteParams.Content params)"
  shows "Run e t ctx call w =
           ((NewTextErrorResponse
               (''File '' @ resolvePath e t params @ '' already contains the exact content. No changes made.''),
             None), w)"
  using assms
  by (simp add: Run_def Let_def)

theorem C6_identical_content_amended_witness:
  "Unmarshal unix (Input (writeCall ''c.txt'' ''x'')) =
     Inr \<lparr>WriteParams.FilePath = ''c.txt'', WriteParams.Content = ''x''\<rparr> \<and>
   resolvePath unix exampleTool \<lparr>WriteParams.FilePath = ''c.txt'', WriteParams.Content = ''x''\<rparr> = ''/w/c.txt'' \<and>
   Stat unix (fs (exampleWorld True True)) ''/w/c.txt'' = Inr \<lparr>IsDir = False, ModTime = 5\<rparr> \<and>
   getLastReadTime (records (exampleWorld True True)) ''/w/c.txt'' = 7 \<and>
   ReadFile unix (fs (exampleWorld True True)) ''/w/c.txt'' = Inr ''x'' \<and>
   Run unix exampleTool exampleContext (writeCall ''c.txt'' ''x'') (exampleWorld True True) =
     ((NewTextErrorResponse ''File /w/c.txt already contains the exact content. No changes made.'', None),
      exampleWorld True True)"
proof -
  let ?params = "\<lparr>WriteParams.FilePath = ''c.txt'', WriteParams.Content = ''x''\<rparr>"
  have h1: "Unmarshal unix (Input (writeCall ''c.txt'' ''x'')) = Inr ?params"
    by code_simp
  have p: "resolvePath unix exampleTool ?params = ''/w/c.txt''"
    by code_simp
  have s: "Stat unix (fs (exampleWorld True True)) ''/w/c.txt'' = Inr \<lparr>IsDir = False, ModTime = 5\<rparr>"
    by code_simp
  have l: "getLastReadTime (records (exampleWorld True True)) ''/w/c.txt'' = 7"
    by code_simp
  have r: "ReadFile unix (fs (exampleWorld True True)) ''/w/c.txt'' = Inr ''x''"
    by code_simp
  have h2: "WriteParams.FilePath ?params \<noteq> []" and h3: "WriteParams.Content ?params \<noteq> []"
    by simp_all
  from p s have h4: "Stat unix (fs (exampleWorld True True)) (resolvePath unix exampleTool ?params) =
      Inr \<lparr>IsDir = False, ModTime = 5\<rparr>"
    by simp
  have h5: "\<not> IsDir \<lparr>IsDir = False, ModTime = 5\<rparr>"
    by simp
  from p l have h6: "\<not> ModTime \<lparr>IsDir = False, ModTime = 5\<rparr> >
      getLastReadTime (records (exampleWorld True True)) (resolvePath unix exampleTool ?params)"
    by simp
  from p r have h7: "ReadFile unix (fs (exampleWorld True True)) (resolvePath unix exampleTool ?params) =
      Inr (WriteParams.Content ?params)"
    by simp
  from C6_identical_content_amended [OF h1 h2 h3 h4 h5 h6 h7, of exampleContext] h1 p s l r
  show ?thesis
    by simp
qed

theorem C6_counterexample:
  "Unmarshal unix (Input (writeCall ''e.txt'' [])) = Inr \<lparr>WriteParams.FilePath = ''e.txt'', WriteParams.Content = []\<rparr> \<and>
   Stat unix (fs (exampleWorld True True)) ''/w/e.txt'' = Inr \<lparr>IsDir = False, ModTime = 5\<rparr> \<and>
   getLastReadTime (records (exampleWorld True True)) ''/w/e.txt'' = 7 \<and>
   ReadFile unix (fs (exampleWorld True True)) ''/w/e.txt'' = Inr [] \<and>
   fst (Run unix exampleTool exampleContext (writeCall ''e.txt'' []) (exampleWorld True True)) =
     (NewTextErrorResponse ''content is required'', None) \<and>
   ToolResponse.Content (fst (fst (Run unix exampleTool exampleContext (writeCall ''e.txt'' [])
      (exampleWorld True True)))) \<noteq>
     ''File /w/e.txt already contains the exact content. No changes made.''"
  by code_simp

subsection \<open>The permission request\<close>

text \<open>
  Claim C7. A call of \<open>Run\<close> submits at most one permission request. The \<open>Path\<close> of that
  request is the working directory when \<^verbatim>\<open>filepath.Rel\<close> of the working directory and the
  resolved file path succeeds with a result that does not begin with two dots, and the
  resolved file path otherwise.
\<close>

theorem C7_request_path_scope:
  assumes "Run e t ctx call w = (out, w')"
  shows "requests w' = requests w \<or>
         (\<exists>req ans params.
            requests w' = requests w @ [(req, ans)] \<and>
            Unmarshal e (Input call) = Inr params \<and>
            WritePermissionsParams.FilePath (Params req) = resolvePath e t params \<and>
            CreatePermissionRequest.Path req =
              (case Rel e (workingDir t) (resolvePath e t params) of
                 Inl err \<Rightarrow> resolvePath e t params
               | Inr r \<Rightarrow> if prefix ''..'' r then resolvePath e t params else workingDir t))"
proof (cases "requests w' = requests w")
  case True
  then show ?thesis by simp
next
  case False
  with Run_shape [of e t ctx call w] assms obtain req ans where
    q: "requests (snd (Run e t ctx call w)) = requests w @ [(req, ans)]"
    by auto
  from Run_request_info [OF q] obtain params where
    p: "Unmarshal e (Input call) = Inr params" and
    r: "req = permissionRequest e t call (fst (GetContextValues ctx)) (resolvePath e t params)
                   (capturedOld e (snd (MkdirAll e (fs w) (Dir e (resolvePath e t params))))
                      (resolvePath e t params) (statInfo e (fs w) (resolvePath e t params)))
                   params"
    by blast
  from r have "WritePermissionsParams.FilePath (Params req) = resolvePath e t params"
    and "CreatePermissionRequest.Path req =
              (case Rel e (workingDir t) (resolvePath e t params) of
                 Inl err \<Rightarrow> resolvePath e t params
               | Inr r \<Rightarrow> if prefix ''..'' r then resolvePath e t params else workingDir t)"
    by (simp_all add: permissionRequest_def PathOrPrefix_def HasPrefix_def HasPrefix_strings_def split: sum.splits)
  with q p assms show ?thesis
    by auto
qed

theorem C7_request_path_scope_witness:
  "requests (snd (Run unix exampleTool exampleContext (writeCall ''new/a.txt'' ''hello'') (exampleWorld False True))) =
     [(exampleRequest ''/w'' ''/w/new/a.txt'' [] ''hello'', False)] \<and>
   Rel unix ''/w'' ''/w/new/a.txt'' = Inr ''new/a.txt'' \<and>
   requests (snd (Run unix exampleTool exampleContext (writeCall ''/x/a.txt'' ''hello'') (exampleWorld False True))) =
     [(exampleRequest ''/x/a.txt'' ''/x/a.txt'' [] ''hello'', False)] \<and>
   Rel unix ''/w'' ''/x/a.txt'' = Inr ''../x/a.txt'' \<and>
   (\<exists>req ans params.
      requests (snd (Run unix exampleTool exampleContext (writeCall ''/x/a.txt'' ''hello'') (exampleWorld False True))) =
        requests (exampleWorld False True) @ [(req, ans)] \<and>
      Unmarshal unix (Input (writeCall ''/x/a.txt'' ''hello'')) = Inr params \<and>
      WritePermissionsParams.FilePath (Params req) = resolvePath unix exampleTool params \<and>
      CreatePermissionRequest.Path req =
        (case Rel unix (workingDir exampleTool) (resolvePath unix exampleTool params) of
           Inl err \<Rightarrow> resolvePath unix exampleTool params
         | Inr r \<Rightarrow> if prefix ''..'' r then resolvePath unix exampleTool params else workingDir exampleTool))"
proof -
  let ?in = "Run unix exampleTool exampleContext (writeCall ''new/a.txt'' ''hello'') (exampleWorld False True)"
  let ?out = "Run unix exampleTool exampleContext (writeCall ''/x/a.txt'' ''hello'') (exampleWorld False True)"
  have a: "requests (snd ?in) = [(exampleRequest ''/w'' ''/w/new/a.txt'' [] ''hello'', False)]"
    by code_simp
  have b: "Rel unix ''/w'' ''/w/new/a.txt'' = Inr ''new/a.txt''"
    by code_simp
  have c: "requests (snd ?out) = [(exampleRequest ''/x/a.txt'' ''/x/a.txt'' [] ''hello'', False)]"
    by code_simp
  have d: "Rel unix ''/w'' ''/x/a.txt'' = Inr ''../x/a.txt''"
    by code_simp
  have h: "?out = (fst ?out, snd ?out)"
    by simp
  have e: "requests (exampleWorld False True) = []"
    by (simp add: exampleWorld_def)
  with c have n: "requests (snd ?out) \<noteq> requests (exampleWorld False True)"
    by simp
  from C7_request_path_scope [OF h] n a b c d show ?thesis
    by simp
qed

subsection \<open>History\<close>

text \<open>
  Claim C3. For every successful write whose (session, path) the history store already has
  (\<open>GetByPathAndSession\<close> returns its latest version): the store after the call is the
  store before it after \<open>CreateVersion\<close> of the content to be written, preceded by one
  \<open>CreateVersion\<close> of the pre-image captured from disk if and only if that pre-image differs
  from the content of the latest version. The session, the path, the captured pre-image
  and the new content are those of the permission request of the call.
\<close>

theorem C3_intermediate_version:
  assumes "Run e t ctx call w = ((resp, None), w')" and "\<not> IsError resp"
      and "requests w' = requests w @ [(req, ans)]"
      and "GetByPathAndSession e (files w) (WritePermissionsParams.FilePath (Params req))
             (CreatePermissionRequest.SessionID req) = (latest, None)"
  shows "files w' =
           snd (CreateVersion e
                  (if File.Content latest \<noteq> OldContent (Params req)
                   then snd (CreateVersion e (files w) (CreatePermissionRequest.SessionID req)
                               (WritePermissionsParams.FilePath (Params req)) (OldContent (Params req)))
                   else files w)
                  (CreatePermissionRequest.SessionID req)
                  (WritePermissionsParams.FilePath (Params req)) (NewContent (Params req)))"
proof -
  from assms have s: "snd (fst (Run e t ctx call w)) = None" "\<not> IsError (fst (fst (Run e t ctx call w)))"
    and q: "requests (snd (Run e t ctx call w)) = requests w @ [(req, ans)]"
    by simp_all
  note sw = Run_success_write [OF s q]
  from q sw(1) have q': "requests (snd (Run e t ctx call w)) = requests w @ [(req, True)]"
    by simp
  obtain cerr h0 where c: "Create e (files w) (CreatePermissionRequest.SessionID req)
             (WritePermissionsParams.FilePath (Params req)) (OldContent (Params req)) = (cerr, h0)"
    by fastforce
  from Run_written(2) [OF q' sw(2) assms(4) c] obtain params d w1 where
    r: "Run e t ctx call w =
               Run_versions e (CreatePermissionRequest.SessionID req)
                 (WritePermissionsParams.FilePath (Params req)) (OldContent (Params req)) params d latest w1"
     and p: "WriteParams.Content params = NewContent (Params req)"
     and f: "files w1 = files w"
    by auto
  from assms(1) have w': "snd (Run e t ctx call w) = w'"
    by simp
  from Run_versions_store(1) [OF refl refl, where e = e and got = latest and w = w1 and params = params
      and sid = "CreatePermissionRequest.SessionID req" and d = d and old = "OldContent (Params req)"
      and fp = "WritePermissionsParams.FilePath (Params req)"] r p f
  have "files (snd (Run e t ctx call w)) =
           snd (CreateVersion e
                  (if File.Content latest \<noteq> OldContent (Params req)
                   then snd (CreateVersion e (files w) (CreatePermissionRequest.SessionID req)
                               (WritePermissionsParams.FilePath (Params req)) (OldContent (Params req)))
                   else files w)
                  (CreatePermissionRequest.SessionID req)
                  (WritePermissionsParams.FilePath (Params req)) (NewContent (Params req)))"
    by simp
  with w' show ?thesis
    by simp
qed

theorem C3_intermediate_version_witness:
  "requests (snd (Run unix exampleTool exampleContext (writeCall ''d.txt'' ''v2'') (exampleWorld True True))) =
     [(exampleRequest ''/w'' ''/w/d.txt'' ''user-edit'' ''v2'', True)] \<and>
   versions (files (exampleWorld True True)) (''s1'', ''/w/d.txt'') = [''v1''] \<and>
   versions (files (snd (Run unix exampleTool exampleContext (writeCall ''d.txt'' ''v2'') (exampleWorld True True))))
     (''s1'', ''/w/d.txt'') = [''v1'', ''user-edit'', ''v2''] \<and>
   requests (snd (Run unix exampleTool exampleContext (writeCall ''f.txt'' ''v2'') (exampleWorld True True))) =
     [(exampleRequest ''/w'' ''/w/f.txt'' ''v1'' ''v2'', True)] \<and>
   versions (files (exampleWorld True True)) (''s1'', ''/w/f.txt'') = [''v0'', ''v1''] \<and>
   versions (files (snd (Run unix exampleTool exampleContext (writeCall ''f.txt'' ''v2'') (exampleWorld True True))))
     (''s1'', ''/w/f.txt'') = [''v0'', ''v1'', ''v2'']"
proof -
  let ?w = "exampleWorld True True"
  let ?d = "Run unix exampleTool exampleContext (writeCall ''d.txt'' ''v2'') ?w"
  let ?f = "Run unix exampleTool exampleContext (writeCall ''f.txt'' ''v2'') ?w"
  let ?rd = "exampleRequest ''/w'' ''/w/d.txt'' ''user-edit'' ''v2''"
  let ?rf = "exampleRequest ''/w'' ''/w/f.txt'' ''v1'' ''v2''"
  have w0: "requests ?w = []" "files ?w = exampleStore True"
    by (simp_all add: exampleWorld_def)
  have d1: "snd (fst ?d) = None" and d2: "\<not> IsError (fst (fst ?d))"
    and d3: "requests (snd ?d) = [(?rd, True)]"
    by code_simp+
  have f1: "snd (fst ?f) = None" and f2: "\<not> IsError (fst (fst ?f))"
    and f3: "requests (snd ?f) = [(?rf, True)]"
    by code_simp+
  have gd: "GetByPathAndSession unix (files ?w) (WritePermissionsParams.FilePath (Params ?rd))
      (CreatePermissionRequest.SessionID ?rd) =
      (\<lparr>File.SessionID = ''s1'', File.Path = ''/w/d.txt'', File.Content = ''v1'', Version = 0\<rparr>, None)"
    by code_simp
  have gf: "GetByPathAndSession unix (files ?w) (WritePermissionsParams.FilePath (Params ?rf))
      (CreatePermissionRequest.SessionID ?rf) =
      (\<lparr>File.SessionID = ''s1'', File.Path = ''/w/f.txt'', File.Content = ''v1'', Version = 1\<rparr>, None)"
    by code_simp
  from d1 have hd1: "?d = ((fst (fst ?d), None), snd ?d)"
    by (simp add: prod_eq_iff)
  from f1 have hf1: "?f = ((fst (fst ?f), None), snd ?f)"
    by (simp add: prod_eq_iff)
  from d3 w0 have hd3: "requests (snd ?d) = requests ?w @ [(?rd, True)]"
    by simp
  from f3 w0 have hf3: "requests (snd ?f) = requests ?w @ [(?rf, True)]"
    by simp
  have vd: "versions (files (snd ?d)) (''s1'', ''/w/d.txt'') = [''v1'', ''user-edit'', ''v2'']"
    unfolding C3_intermediate_version [OF hd1 d2 hd3 gd] w0
    by (simp add: unix_def exampleRequest_def exampleStore_def CreateVersion_store_def)
  have vf: "versions (files (snd ?f)) (''s1'', ''/w/f.txt'') = [''v0'', ''v1'', ''v2'']"
    unfolding C3_intermediate_version [OF hf1 f2 hf3 gf] w0
    by (simp add: unix_def exampleRequest_def exampleStore_def CreateVersion_store_def)
  from d3 f3 vd vf w0 show ?thesis
    by (simp add: exampleStore_def)
qed

text \<open>
  Claim C5. For every write-tool call whose permission was granted and whose
  \<^verbatim>\<open>os.WriteFile\<close> succeeded: if \<open>GetByPathAndSession\<close> fails and the initial \<open>Create\<close> fails,
  \<open>Run\<close> returns the error of \<open>Create\<close>, wrapped, with the zero response; in every other
  case \<open>Run\<close> returns the success response with no error, whatever the two calls of
  \<open>CreateVersion\<close> (intermediate and post-image) return, and each of them that fails
  adds one message to the debug log.
\<close>

theorem C5_history_failures:
  assumes "Run e t ctx call w = ((resp, err), w')"
      and "requests w' = requests w @ [(req, True)]"
      and "sid = CreatePermissionRequest.SessionID req"
      and "fp = WritePermissionsParams.FilePath (Params req)"
      and "old = OldContent (Params req)"
      and "new = NewContent (Params req)"
      and "fst (WriteFile e (snd (MkdirAll e (fs w) (Dir e fp))) fp new) = None"
      and "GetByPathAndSession e (files w) fp sid = (file, gerr)"
      and "Create e (files w) sid fp old = (cerr, h0)"
      and "h1 = (if gerr = None then files w else h0)"
      and "CreateVersion e h1 sid fp old = (ierr, h2)"
      and "CreateVersion e (if File.Content file \<noteq> old then h2 else h1) sid fp new = (perr, h3)"
  shows "(gerr \<noteq> None \<and> cerr \<noteq> None \<longrightarrow>
            (\<exists>y. cerr = Some y \<and> err = Some (Errorf ''error creating file history'' y)) \<and>
            resp = zeroToolResponse) \<and>
         (gerr = None \<or> cerr = None \<longrightarrow>
            err = None \<and> \<not> IsError resp \<and>
            ToolResponse.Content resp = successText fp @ getDiagnostics e fp (lspClients w') \<and>
            debugLog w' =
              debugLog w @
              (if File.Content file \<noteq> old \<and> ierr \<noteq> None then [historyVersionFailed] else []) @
              (if perr \<noteq> None then [historyVersionFailed] else []))"
proof -
  from assms(1,2) have q: "requests (snd (Run e t ctx call w)) = requests w @ [(req, True)]"
    by simp
  note wr = Run_written [OF q assms(7) [unfolded assms(4,6)] assms(8) [unfolded assms(3,4)]
      assms(9) [unfolded assms(3,4,5)]]
  have a: "gerr \<noteq> None \<and> cerr \<noteq> None \<longrightarrow>
            (\<exists>y. cerr = Some y \<and> err = Some (Errorf ''error creating file history'' y)) \<and>
            resp = zeroToolResponse"
  proof (intro impI)
    assume "gerr \<noteq> None \<and> cerr \<noteq> None"
    then obtain y where g: "gerr \<noteq> None" and y: "cerr = Some y" by auto
    from wr(1) [OF g y] assms(1) y
    show "(\<exists>y. cerr = Some y \<and> err = Some (Errorf ''error creating file history'' y)) \<and>
            resp = zeroToolResponse"
      by simp
  qed
  have b: "gerr = None \<or> cerr = None \<longrightarrow>
            err = None \<and> \<not> IsError resp \<and>
            ToolResponse.Content resp = successText fp @ getDiagnostics e fp (lspClients w') \<and>
            debugLog w' =
              debugLog w @
              (if File.Content file \<noteq> old \<and> ierr \<noteq> None then [historyVersionFailed] else []) @
              (if perr \<noteq> None then [historyVersionFailed] else [])"
  proof (intro impI)
    assume "gerr = None \<or> cerr = None"
    from wr(2) [OF this] obtain params d w1 where
      r: "Run e t ctx call w = Run_versions e sid fp old params d file w1"
      and p: "WriteParams.Content params = new"
      and f: "files w1 = h1" and l: "debugLog w1 = debugLog w"
      using assms(3,4,5,6,10) by auto
    from assms(1) have w': "snd (Run e t ctx call w) = w'" "fst (Run e t ctx call w) = (resp, err)"
      by simp_all
    from Run_versions_out(1,2,3) [of e sid fp old params d "file" w1] r [symmetric] w'
    have o: "err = None" "\<not> IsError resp"
      "ToolResponse.Content resp = successText fp @ getDiagnostics e fp (lspClients w')"
      by simp_all
    from assms(11) have i: "fst (CreateVersion e h1 sid fp old) = ierr"
        "snd (CreateVersion e h1 sid fp old) = h2"
      by simp_all
    then have h: "(if File.Content file \<noteq> old then snd (CreateVersion e h1 sid fp old) else h1) =
        (if File.Content file \<noteq> old then h2 else h1)"
      by simp
    from assms(12) have pe: "fst (CreateVersion e (if File.Content file \<noteq> old then h2 else h1) sid fp new) = perr"
      by simp
    have "debugLog (snd (Run_versions e sid fp old params d file w1)) =
        logVersionError (fst (CreateVersion e
          (if File.Content file \<noteq> old then snd (CreateVersion e (files w1) sid fp old) else files w1)
          sid fp (WriteParams.Content params)))
         (if File.Content file \<noteq> old
          then logVersionError (fst (CreateVersion e (files w1) sid fp old)) (debugLog w1)
          else debugLog w1)"
      by (rule Run_versions_store(2) [OF refl refl])
    with r w' p f l i h pe have dl: "debugLog w' =
        logVersionError perr
          (if File.Content file \<noteq> old then logVersionError ierr (debugLog w) else debugLog w)"
      by (cases "File.Content file = old") simp_all
    have "debugLog w' =
              debugLog w @
              (if File.Content file \<noteq> old \<and> ierr \<noteq> None then [historyVersionFailed] else []) @
              (if perr \<noteq> None then [historyVersionFailed] else [])"
      unfolding dl by (cases ierr; cases perr; simp add: logVersionError_def)
    with o show "err = None \<and> \<not> IsError resp \<and>
            ToolResponse.Content resp = successText fp @ getDiagnostics e fp (lspClients w') \<and>
            debugLog w' =
              debugLog w @
              (if File.Content file \<noteq> old \<and> ierr \<noteq> None then [historyVersionFailed] else []) @
              (if perr \<noteq> None then [historyVersionFailed] else [])"
      by simp
  qed
  from a b show ?thesis by simp
qed

theorem C5_history_failures_witness:
  "GetByPathAndSession unix (files (exampleWorld True False)) ''/w/new/a.txt'' ''s1'' =
     (zeroFile, Some (ErrText ''no rows in result set'')) \<and>
   Create unix (files (exampleWorld True False)) ''s1'' ''/w/new/a.txt'' [] =
     (Some (ErrText ''attempt to write a readonly database''), exampleStore False) \<and>
   fst (Run unix exampleTool exampleContext (writeCall ''new/a.txt'' ''hello'') (exampleWorld True False)) =
     (zeroToolResponse,
      Some (Errorf ''error creating file history'' (ErrText ''attempt to write a readonly database''))) \<and>
   GetByPathAndSession unix (files (exampleWorld True False)) ''/w/d.txt'' ''s1'' =
     (\<lparr>File.SessionID = ''s1'', File.Path = ''/w/d.txt'', File.Content = ''v1'', Version = 0\<rparr>, None) \<and>
   CreateVersion unix (exampleStore False) ''s1'' ''/w/d.txt'' ''user-edit'' =
     (Some (ErrText ''attempt to write a readonly database''), exampleStore False) \<and>
   CreateVersion unix (exampleStore False) ''s1'' ''/w/d.txt'' ''v2'' =
     (Some (ErrText ''attempt to write a readonly database''), exampleStore False) \<and>
   snd (fst (Run unix exampleTool exampleContext (writeCall ''d.txt'' ''v2'') (exampleWorld True False))) = None \<and>
   \<not> IsError (fst (fst (Run unix exampleTool exampleContext (writeCall ''d.txt'' ''v2'') (exampleWorld True False)))) \<and>
   debugLog (snd (Run unix exampleTool exampleContext (writeCall ''d.txt'' ''v2'') (exampleWorld True False))) =
     [historyVersionFailed, historyVersionFailed]"
proof -
  let ?w = "exampleWorld True False"
  let ?a = "Run unix exampleTool exampleContext (writeCall ''new/a.txt'' ''hello'') ?w"
  let ?d = "Run unix exampleTool exampleContext (writeCall ''d.txt'' ''v2'') ?w"
  let ?ra = "exampleRequest ''/w'' ''/w/new/a.txt'' [] ''hello''"
  let ?rd = "exampleRequest ''/w'' ''/w/d.txt'' ''user-edit'' ''v2''"
  let ?ro = "Some (ErrText ''attempt to write a readonly database'')"
  let ?v1 = "\<lparr>File.SessionID = ''s1'', File.Path = ''/w/d.txt'', File.Content = ''v1'', Version = 0\<rparr>"
  have w0: "requests ?w = []" "files ?w = exampleStore False" "debugLog ?w = []"
    by (simp_all add: exampleWorld_def)
  have a1: "?a = ((fst (fst ?a), snd (fst ?a)), snd ?a)"
    and d1: "?d = ((fst (fst ?d), snd (fst ?d)), snd ?d)"
    by simp_all
  have "requests (snd ?a) = [(?ra, True)]" and "requests (snd ?d) = [(?rd, True)]"
    by code_simp+
  with w0 have a2: "requests (snd ?a) = requests ?w @ [(?ra, True)]"
    and d2: "requests (snd ?d) = requests ?w @ [(?rd, True)]"
    by simp_all
  have a3: "''s1'' = CreatePermissionRequest.SessionID ?ra"
    and a4: "''/w/new/a.txt'' = WritePermissionsParams.FilePath (Params ?ra)"
    and a5: "[] = OldContent (Params ?ra)" and a6: "''hello'' = NewContent (Params ?ra)"
    and d3: "''s1'' = CreatePermissionRequest.SessionID ?rd"
    and d4: "''/w/d.txt'' = WritePermissionsParams.FilePath (Params ?rd)"
    and d5: "''user-edit'' = OldContent (Params ?rd)" and d6: "''v2'' = NewContent (Params ?rd)"
    by (simp_all add: exampleRequest_def)
  have a7: "fst (WriteFile unix (snd (MkdirAll unix (fs ?w) (Dir unix ''/w/new/a.txt''))) ''/w/new/a.txt'' ''hello'') = None"
    and d7: "fst (WriteFile unix (snd (MkdirAll unix (fs ?w) (Dir unix ''/w/d.txt''))) ''/w/d.txt'' ''v2'') = None"
    by code_simp+
  have a8: "GetByPathAndSession unix (files ?w) ''/w/new/a.txt'' ''s1'' =
      (zeroFile, Some (ErrText ''no rows in result set''))"
    and d8: "GetByPathAndSession unix (files ?w) ''/w/d.txt'' ''s1'' = (?v1, None)"
    by code_simp+
  have cv: "\<And>p c. CreateVersion unix (exampleStore False) ''s1'' p c = (?ro, exampleStore False)"
    and cr: "\<And>p c. Create unix (exampleStore False) ''s1'' p c = (?ro, exampleStore False)"
    by (simp_all add: unix_def Create_store_def CreateVersion_store_def exampleStore_def)
  from cr w0 have a9: "Create unix (files ?w) ''s1'' ''/w/new/a.txt'' [] = (?ro, exampleStore False)"
    and d9: "Create unix (files ?w) ''s1'' ''/w/d.txt'' ''user-edit'' = (?ro, exampleStore False)"
    by simp_all
  have a10: "exampleStore False =
      (if Some (ErrText ''no rows in result set'') = None then files ?w else exampleStore False)"
    by simp
  from w0 have d10: "exampleStore False = (if (None :: error option) = None then files ?w else exampleStore False)"
    by simp
  have a11: "CreateVersion unix (exampleStore False) ''s1'' ''/w/new/a.txt'' [] = (?ro, exampleStore False)"
    and d11: "CreateVersion unix (exampleStore False) ''s1'' ''/w/d.txt'' ''user-edit'' = (?ro, exampleStore False)"
    by (simp_all add: cv)
  have a12: "CreateVersion unix (if File.Content zeroFile \<noteq> [] then exampleStore False else exampleStore False)
      ''s1'' ''/w/new/a.txt'' ''hello'' = (?ro, exampleStore False)"
    and d12: "CreateVersion unix (if File.Content ?v1 \<noteq> ''user-edit'' then exampleStore False else exampleStore False)
      ''s1'' ''/w/d.txt'' ''v2'' = (?ro, exampleStore False)"
    by (simp_all add: cv)
  note A = C5_history_failures [OF a1 a2 a3 a4 a5 a6 a7 a8 a9 a10 a11 a12]
  note D = C5_history_failures [OF d1 d2 d3 d4 d5 d6 d7 d8 d9 d10 d11 d12]
  from A have ra: "fst ?a = (zeroToolResponse, Some (Errorf ''error creating file history''
      (ErrText ''attempt to write a readonly database'')))"
    by (simp add: prod_eq_iff)
  from D w0 have rd: "snd (fst ?d) = None" "\<not> IsError (fst (fst ?d))"
    "debugLog (snd ?d) = [historyVersionFailed, historyVersionFailed]"
    by simp_all
  from ra rd a8 a9 d8 cv show ?thesis
    by simp
qed

text \<open>
  The first write of a session to a path, for every history service: when the lookup
  fails and \<open>Create\<close> of the pre-image succeeds, \<open>Run\<close> goes on to compare the pre-image
  with the content of the \<^verbatim>\<open>File\<close> that the failed lookup returned.
\<close>

lemma Run_first_write:
  assumes "requests (snd (Run e t ctx call w)) = requests w @ [(req, True)]"
      and "fst (WriteFile e (snd (MkdirAll e (fs w) (Dir e (WritePermissionsParams.FilePath (Params req)))))
             (WritePermissionsParams.FilePath (Params req)) (NewContent (Params req))) = None"
      and "GetByPathAndSession e (files w) (WritePermissionsParams.FilePath (Params req))
             (CreatePermissionRequest.SessionID req) = (got, Some x)"
      and "Create e (files w) (CreatePermissionRequest.SessionID req)
             (WritePermissionsParams.FilePath (Params req)) (OldContent (Params req)) = (None, h0)"
  shows "files (snd (Run e t ctx call w)) =
           snd (CreateVersion e
                  (if File.Content got \<noteq> OldContent (Params req)
                   then snd (CreateVersion e h0 (CreatePermissionRequest.SessionID req)
                               (WritePermissionsParams.FilePath (Params req)) (OldContent (Params req)))
                   else h0)
                  (CreatePermissionRequest.SessionID req)
                  (WritePermissionsParams.FilePath (Params req)) (NewContent (Params req)))"
proof -
  have "Some x = None \<or> (None :: error option) = None"
    by simp
  from Run_written(2) [OF assms this] obtain params d w1 where
    r: "Run e t ctx call w =
               Run_versions e (CreatePermissionRequest.SessionID req)
                 (WritePermissionsParams.FilePath (Params req)) (OldContent (Params req)) params d got w1"
     and p: "WriteParams.Content params = NewContent (Params req)"
     and f: "files w1 = h0"
    by auto
  from Run_versions_store(1) [OF refl refl, where e = e and got = got and w = w1 and params = params
      and sid = "CreatePermissionRequest.SessionID req" and d = d and old = "OldContent (Params req)"
      and fp = "WritePermissionsParams.FilePath (Params req)"] r p f
  show ?thesis
    by simp
qed

text \<open>
  Claim C4 says that after a successful write for a (session, path) with no entry in the
  history store, the store has exactly two versions for it: the pre-image, then the
  post-image. The code does so only when the pre-image is empty. After \<open>Create\<close> of a
  non-empty pre-image, line 209 compares it with the content of the zero \<^verbatim>\<open>File\<close> that
  the failed lookup returned (\<open>Run_first_write\<close>), and stores it a second time as an
  intermediate version: for the file \<^verbatim>\<open>/w/b.txt\<close> with the content \<^verbatim>\<open>old\<close>, read
  before and never written in the session, writing \<^verbatim>\<open>new\<close> leaves three versions.
\<close>

theorem C4_first_write_of_existing_file:
  "Stat unix (fs (exampleWorld True True)) ''/w/b.txt'' = Inr \<lparr>IsDir = False, ModTime = 5\<rparr> \<and>
   ReadFile unix (fs (exampleWorld True True)) ''/w/b.txt'' = Inr ''old'' \<and>
   versions (files (exampleWorld True True)) (''s1'', ''/w/b.txt'') = [] \<and>
   snd (fst (Run unix exampleTool exampleContext (writeCall ''b.txt'' ''new'') (exampleWorld True True))) = None \<and>
   \<not> IsError (fst (fst (Run unix exampleTool exampleContext (writeCall ''b.txt'' ''new'') (exampleWorld True True)))) \<and>
   versions (files (snd (Run unix exampleTool exampleContext (writeCall ''b.txt'' ''new'') (exampleWorld True True))))
     (''s1'', ''/w/b.txt'') = [''old'', ''old'', ''new'']"
  by code_simp

subsection \<open>The response\<close>

text \<open>
  Claim C8. For every successful write-tool call, the content of the response is the
  message \<^verbatim>\<open>File successfully written: <path>\<close> between \<^verbatim>\<open><result>\<close> and \<^verbatim>\<open></result>\<close>
  lines, followed by the diagnostics of the path, and the metadata is exactly the diff,
  the additions and the removals that the diff engine computes from the old content
  captured from disk and the content written.
\<close>

theorem C8_success_response:
  assumes "Run e t ctx call w = ((resp, None), w')" and "\<not> IsError resp"
  shows "\<exists>params req.
           Unmarshal e (Input call) = Inr params \<and>
           requests w' = requests w @ [(req, True)] \<and>
           WritePermissionsParams.FilePath (Params req) = resolvePath e t params \<and>
           NewContent (Params req) = WriteParams.Content params \<and>
           OldContent (Params req) =
             capturedOld e (snd (MkdirAll e (fs w) (Dir e (resolvePath e t params))))
               (resolvePath e t params) (statInfo e (fs w) (resolvePath e t params)) \<and>
           fs w' = snd (WriteFile e (snd (MkdirAll e (fs w) (Dir e (resolvePath e t params))))
                          (resolvePath e t params) (WriteParams.Content params)) \<and>
           ToolResponse.Content resp =
             ''<result>'' @ [LF] @ ''File successfully written: '' @ resolvePath e t params @ [LF] @
             ''</result>'' @ getDiagnostics e (resolvePath e t params) (lspClients w') \<and>
           Metadata resp =
             Some \<lparr>Diff = fst (GenerateDiff e (OldContent (Params req)) (WriteParams.Content params)
                                (TrimPrefix (resolvePath e t params) (workingDir t))),
                   Additions = fst (snd (GenerateDiff e (OldContent (Params req)) (WriteParams.Content params)
                                (TrimPrefix (resolvePath e t params) (workingDir t)))),
                   Removals = snd (snd (GenerateDiff e (OldContent (Params req)) (WriteParams.Content params)
                                (TrimPrefix (resolvePath e t params) (workingDir t))))\<rparr>"
proof -
  from assms have s: "snd (fst (Run e t ctx call w)) = None" "\<not> IsError (fst (fst (Run e t ctx call w)))"
    by simp_all
  from Run_success [OF s] obtain req where
    q: "requests (snd (Run e t ctx call w)) = requests w @ [(req, True)]"
    by blast
  from Run_request_info [OF q] obtain params where
    p: "Unmarshal e (Input call) = Inr params" and
    rq: "req = permissionRequest e t call (fst (GetContextValues ctx)) (resolvePath e t params)
                   (capturedOld e (snd (MkdirAll e (fs w) (Dir e (resolvePath e t params))))
                      (resolvePath e t params) (statInfo e (fs w) (resolvePath e t params)))
                   params"
    by blast
  let ?fp = "resolvePath e t params"
  let ?old = "capturedOld e (snd (MkdirAll e (fs w) (Dir e ?fp))) ?fp (statInfo e (fs w) ?fp)"
  from rq have f: "WritePermissionsParams.FilePath (Params req) = ?fp"
      "OldContent (Params req) = ?old" "NewContent (Params req) = WriteParams.Content params"
    by (simp_all add: permissionRequest_def)
  let ?w1 = "w\<lparr>fs := snd (MkdirAll e (fs w) (Dir e ?fp)),
                  permissions := snd (Request e (permissions w) req),
                  requests := requests w @ [(req, True)]\<rparr>"
  let ?d = "GenerateDiff e ?old (WriteParams.Content params) (TrimPrefix ?fp (workingDir t))"
  from Run_granted [OF q] p f obtain params' where
    r: "Run e t ctx call w = Run_write e (CreatePermissionRequest.SessionID req) ?fp ?old params' ?d ?w1"
    and c: "WriteParams.Content params' = WriteParams.Content params"
    by auto
  from s r have s': "snd (fst (Run_write e (CreatePermissionRequest.SessionID req) ?fp ?old params' ?d ?w1)) = None"
    by simp
  note ws = Run_write_success(2,3) [OF s'] Run_write_frame(3) [of e "CreatePermissionRequest.SessionID req" ?fp ?old params' ?d ?w1]
  from assms(1) have w': "snd (Run e t ctx call w) = w'" "fst (Run e t ctx call w) = (resp, None)"
    by simp_all
  from ws r [symmetric] w' c have
    "ToolResponse.Content resp = successText ?fp @ getDiagnostics e ?fp (lspClients w')"
    "Metadata resp = Some \<lparr>Diff = fst ?d, Additions = fst (snd ?d), Removals = snd (snd ?d)\<rparr>"
    "fs w' = snd (WriteFile e (snd (MkdirAll e (fs w) (Dir e ?fp))) ?fp (WriteParams.Content params))"
    by simp_all
  with p q f assms(1) show ?thesis
    by (intro exI [of _ params] exI [of _ req]) (simp add: successText_def)
qed

theorem C8_success_response_witness:
  "fst (Run unix exampleTool exampleContext (writeCall ''d.txt'' ''v2'') (exampleWorld True True)) =
     (\<lparr>Type = ''text'',
       Content = ''<result>'' @ [LF] @ ''File successfully written: /w/d.txt'' @ [LF] @ ''</result>'',
       Metadata = Some \<lparr>Diff = ''--- a//d.txt'' @ [LF] @ ''+++ b//d.txt'' @ [LF] @
                               ''-user-edit'' @ [LF] @ ''+v2'' @ [LF],
                        Additions = 1, Removals = 1\<rparr>,
       IsError = False\<rparr>, None) \<and>
   GenerateDiff unix ''user-edit'' ''v2'' ''/d.txt'' =
     (''--- a//d.txt'' @ [LF] @ ''+++ b//d.txt'' @ [LF] @ ''-user-edit'' @ [LF] @ ''+v2'' @ [LF], 1, 1) \<and>
   (\<exists>params req.
      Unmarshal unix (Input (writeCall ''d.txt'' ''v2'')) = Inr params \<and>
      requests (snd (Run unix exampleTool exampleContext (writeCall ''d.txt'' ''v2'') (exampleWorld True True))) =
        requests (exampleWorld True True) @ [(req, True)] \<and>
      Metadata (fst (fst (Run unix exampleTool exampleContext (writeCall ''d.txt'' ''v2'') (exampleWorld True True)))) =
        Some \<lparr>Diff = fst (GenerateDiff unix (OldContent (Params req)) (WriteParams.Content params)
                           (TrimPrefix (resolvePath unix exampleTool params) (workingDir exampleTool))),
              Additions = fst (snd (GenerateDiff unix (OldContent (Params req)) (WriteParams.Content params)
                           (TrimPrefix (resolvePath unix exampleTool params) (workingDir exampleTool)))),
              Removals = snd (snd (GenerateDiff unix (OldContent (Params req)) (WriteParams.Content params)
                           (TrimPrefix (resolvePath unix exampleTool params) (workingDir exampleTool))))\<rparr>)"
proof -
  let ?w = "exampleWorld True True"
  let ?d = "Run unix exampleTool exampleContext (writeCall ''d.txt'' ''v2'') ?w"
  have d1: "snd (fst ?d) = None" and d2: "\<not> IsError (fst (fst ?d))"
    by code_simp+
  have r: "fst ?d =
     (\<lparr>Type = ''text'',
       Content = ''<result>'' @ [LF] @ ''File successfully written: /w/d.txt'' @ [LF] @ ''</result>'',
       Metadata = Some \<lparr>Diff = ''--- a//d.txt'' @ [LF] @ ''+++ b//d.txt'' @ [LF] @
                               ''-user-edit'' @ [LF] @ ''+v2'' @ [LF],
                        Additions = 1, Removals = 1\<rparr>,
       IsError = False\<rparr>, None)"
    by code_simp
  have g: "GenerateDiff unix ''user-edit'' ''v2'' ''/d.txt'' =
     (''--- a//d.txt'' @ [LF] @ ''+++ b//d.txt'' @ [LF] @ ''-user-edit'' @ [LF] @ ''+v2'' @ [LF], 1, 1)"
    by code_simp
  from d1 have h1: "?d = ((fst (fst ?d), None), snd ?d)"
    by (simp add: prod_eq_iff)
  from C8_success_response [OF h1 d2] have
    "\<exists>params req.
      Unmarshal unix (Input (writeCall ''d.txt'' ''v2'')) = Inr params \<and>
      requests (snd ?d) = requests ?w @ [(req, True)] \<and>
      Metadata (fst (fst ?d)) =
        Some \<lparr>Diff = fst (GenerateDiff unix (OldContent (Params req)) (WriteParams.Content params)
                           (TrimPrefix (resolvePath unix exampleTool params) (workingDir exampleTool))),
              Additions = fst (snd (GenerateDiff unix (OldContent (Params req)) (WriteParams.Content params)
                           (TrimPrefix (resolvePath unix exampleTool params) (workingDir exampleTool)))),
              Removals = snd (snd (GenerateDiff unix (OldContent (Params req)) (WriteParams.Content params)
                           (TrimPrefix (resolvePath unix exampleTool params) (workingDir exampleTool))))\<rparr>"
    by blast
  with r g show ?thesis
    by blast
qed

text \<open>
  Claim C9. For every input, \<open>Run\<close> returns an error only together with the zero
  \<open>ToolResponse\<close>, and a content-error response only together with no error; so it never
  returns a populated response and an error.
\<close>

theorem C9_error_or_response:
  assumes "Run e t ctx call w = ((resp, err), w')"
  shows "(err \<noteq> None \<longrightarrow> resp = zeroToolResponse) \<and> (IsError resp \<longrightarrow> err = None)"
  using Run_result [of e t ctx call w] assms by simp

theorem C9_error_or_response_witness:
  "fst (Run unix exampleTool exampleContext (writeCall ''new/a.txt'' ''hello'') (exampleWorld False True)) =
     (zeroToolResponse, Some ErrorPermissionDenied) \<and>
   IsError (fst (fst (Run unix exampleTool exampleContext (writeCall ''stale.txt'' ''mine'') (exampleWorld True True)))) \<and>
   snd (fst (Run unix exampleTool exampleContext (writeCall ''stale.txt'' ''mine'') (exampleWorld True True))) = None"
proof -
  let ?denied = "Run unix exampleTool exampleContext (writeCall ''new/a.txt'' ''hello'') (exampleWorld False True)"
  let ?stale = "Run unix exampleTool exampleContext (writeCall ''stale.txt'' ''mine'') (exampleWorld True True)"
  have d: "snd (fst ?denied) = Some ErrorPermissionDenied"
    by code_simp
  have s: "IsError (fst (fst ?stale))"
    by code_simp
  have h1: "?denied = ((fst (fst ?denied), snd (fst ?denied)), snd ?denied)"
    by simp
  have h2: "?stale = ((fst (fst ?stale), snd (fst ?stale)), snd ?stale)"
    by simp
  from C9_error_or_response [OF h1] C9_error_or_response [OF h2] d s show ?thesis
    by (simp add: prod_eq_iff)
qed

section \<open>Line endings\<close>

subsection \<open>Replacing line endings\<close>

lemma ReplaceAll_Nil: "ReplaceAll [] old new = []"
  by (simp add: ReplaceAll.simps)

lemma ReplaceAll_LF_Cons:
  "ReplaceAll (c # cs) [LF] [CR, LF] =
     (if c = LF then [CR, LF] @ ReplaceAll cs [LF] [CR, LF] else c # ReplaceAll cs [LF] [CR, LF])"
  by (subst ReplaceAll.simps) simp

lemma ReplaceAll_CRLF_hit:
  "ReplaceAll (CR # LF # cs) [CR, LF] [LF] = LF # ReplaceAll cs [CR, LF] [LF]"
  by (subst ReplaceAll.simps) simp

lemma ReplaceAll_CRLF_miss:
  "c \<noteq> CR \<Longrightarrow> ReplaceAll (c # cs) [CR, LF] [LF] = c # ReplaceAll cs [CR, LF] [LF]"
  by (subst ReplaceAll.simps) simp

lemma no_CR_no_CRLF: "CR \<notin> set s \<Longrightarrow> \<not> Contains s [CR, LF]"
  by (induction s) auto

lemma windows_then_unix_replace:
  "CR \<notin> set s \<Longrightarrow> ReplaceAll (ReplaceAll s [LF] [CR, LF]) [CR, LF] [LF] = s"
proof (induction s)
  case Nil
  show ?case by (simp add: ReplaceAll_Nil)
next
  case (Cons c cs)
  then have ih: "ReplaceAll (ReplaceAll cs [LF] [CR, LF]) [CR, LF] [LF] = cs" and c: "c \<noteq> CR"
    by auto
  show ?case
  proof (cases "c = LF")
    case True
    then show ?thesis
      by (simp add: ReplaceAll_LF_Cons ReplaceAll_CRLF_hit ih)
  next
    case False
    with c show ?thesis
      by (simp add: ReplaceAll_LF_Cons ReplaceAll_CRLF_miss ih)
  qed
qed

lemma ReplaceAll_absent: "\<not> Contains s old \<Longrightarrow> ReplaceAll s old new = s"
proof (induction s)
  case Nil
  show ?case by (simp add: ReplaceAll_Nil)
next
  case (Cons c cs)
  then have np: "\<not> prefix old (c # cs)" and ih: "ReplaceAll cs old new = cs"
    by auto
  show ?case
    by (subst ReplaceAll.simps) (simp add: np ih)
qed

text \<open>
  Claim C10. For every string \<open>s\<close> that contains no carriage return, converting \<open>s\<close> to
  Windows line endings and the result back to Unix line endings yields \<open>s\<close> again (the
  string components of the two results round-trip).
\<close>

theorem C10_line_endings_roundtrip:
  "CR \<notin> set s \<Longrightarrow> fst (ToUnixLineEndings (fst (ToWindowsLineEndings s))) = s"
proof -
  assume nocr: "CR \<notin> set s"
  then have w: "fst (ToWindowsLineEndings s) = ReplaceAll s [LF] [CR, LF]"
    by (simp add: ToWindowsLineEndings_def no_CR_no_CRLF)
  show ?thesis
  proof (cases "Contains (ReplaceAll s [LF] [CR, LF]) [CR, LF]")
    case True
    with nocr w show ?thesis
      by (simp add: ToUnixLineEndings_def windows_then_unix_replace)
  next
    case False
    then have "ReplaceAll (ReplaceAll s [LF] [CR, LF]) [CR, LF] [LF] = ReplaceAll s [LF] [CR, LF]"
      by (rule ReplaceAll_absent)
    with nocr have "ReplaceAll s [LF] [CR, LF] = s"
      by (simp add: windows_then_unix_replace)
    with False w show ?thesis
      by (simp add: ToUnixLineEndings_def)
  qed
qed

theorem C10_line_endings_roundtrip_witness:
  "CR \<notin> set [CHR ''a'', LF, CHR ''b'', LF] \<and>
   ToWindowsLineEndings [CHR ''a'', LF, CHR ''b'', LF] = ([CHR ''a'', CR, LF, CHR ''b'', CR, LF], True) \<and>
   fst (ToUnixLineEndings (fst (ToWindowsLineEndings [CHR ''a'', LF, CHR ''b'', LF]))) =
     [CHR ''a'', LF, CHR ''b'', LF]"
proof -
  have h: "CR \<notin> set [CHR ''a'', LF, CHR ''b'', LF]"
    by simp
  have w: "ToWindowsLineEndings [CHR ''a'', LF, CHR ''b'', LF] = ([CHR ''a'', CR, LF, CHR ''b'', CR, LF], True)"
    by (simp add: ToWindowsLineEndings_def ReplaceAll_LF_Cons ReplaceAll_Nil)
  from h w C10_line_endings_roundtrip [OF h] show ?thesis
    by simp
qed

end
